theory Spec2Isabelle
  imports Complex_Main "HOL-Library.AList" "HOL-Library.Sublist"
begin

section \<open>JavaScript primitives used by the plugin\<close>

text \<open>
  Strings are lists of characters; a character stands for a UTF-16 code unit below 256.
  The white space of \<open>String.prototype.trim\<close>, \<open>parseInt\<close> and \<open>parseFloat\<close> in
  that range is TAB, LF, VT, FF, CR, SPACE and NBSP.
\<close>

definition isWhiteSpace :: "char \<Rightarrow> bool" where
  "isWhiteSpace c =
     (c = CHR 0x09 \<or> c = CHR 0x0A \<or> c = CHR 0x0B \<or> c = CHR 0x0C \<or> c = CHR 0x0D
      \<or> c = CHR 0x20 \<or> c = CHR 0xA0)"

definition isDigit :: "char \<Rightarrow> bool" where
  "isDigit c = (48 \<le> (of_char c :: nat) \<and> (of_char c :: nat) \<le> 57)"

definition digitVal :: "char \<Rightarrow> nat" where
  "digitVal c = of_char c - 48"

text \<open>The mathematical value of a run of decimal digits.\<close>

definition digitsValue :: "string \<Rightarrow> nat" where
  "digitsValue ds = foldl (\<lambda>acc c. 10 * acc + digitVal c) 0 ds"

definition trimStart :: "string \<Rightarrow> string" where
  "trimStart s = dropWhile isWhiteSpace s"

definition trimEnd :: "string \<Rightarrow> string" where
  "trimEnd s = rev (dropWhile isWhiteSpace (rev s))"

definition trim :: "string \<Rightarrow> string" where
  "trim s = trimEnd (trimStart s)"

definition startsWith :: "string \<Rightarrow> string \<Rightarrow> bool" where
  "startsWith s p = (take (length p) s = p)"

text \<open>\<open>s.split(c)\<close> for a one-character separator; the result is never empty.\<close>

fun splitOn :: "char \<Rightarrow> string \<Rightarrow> string \<Rightarrow> string list" where
  "splitOn c acc [] = [rev acc]"
| "splitOn c acc (x # xs) =
     (if x = c then rev acc # splitOn c [] xs else splitOn c (x # acc) xs)"

definition split :: "char \<Rightarrow> string \<Rightarrow> string list" where
  "split c s = splitOn c [] s"

text \<open>\<open>indexOf\<close> and \<open>lastIndexOf\<close> of a character: \<open>None\<close> is the result \<open>-1\<close>.\<close>

fun indexOf :: "char \<Rightarrow> string \<Rightarrow> nat option" where
  "indexOf c [] = None"
| "indexOf c (x # xs) = (if x = c then Some 0 else map_option Suc (indexOf c xs))"

fun lastIndexOf :: "char \<Rightarrow> string \<Rightarrow> nat option" where
  "lastIndexOf c [] = None"
| "lastIndexOf c (x # xs) =
     (case lastIndexOf c xs of
        Some i \<Rightarrow> Some (Suc i)
      | None \<Rightarrow> if x = c then Some 0 else None)"

text \<open>\<open>s.slice(a, b)\<close> for \<open>0 \<le> a\<close> and \<open>0 \<le> b\<close>, and \<open>s.slice(a)\<close>.\<close>

definition slice :: "string \<Rightarrow> nat \<Rightarrow> nat \<Rightarrow> string" where
  "slice s a b = take (b - a) (drop a s)"

definition sliceFrom :: "string \<Rightarrow> nat \<Rightarrow> string" where
  "sliceFrom s a = drop a s"

text \<open>
  \<open>parseInt(str, 10)\<close>: leading white space is skipped, one sign is read, and the longest
  run of decimal digits that follows is the value; no digit gives \<open>NaN\<close> (\<open>None\<close>).
  The result is the exact integer: the rounding of integers beyond \<open>2^53\<close> to the nearest
  double is not modelled.
\<close>

definition parseInt :: "string \<Rightarrow> int option" where
  "parseInt str =
     (let s = trimStart str;
          neg = (case s of [] \<Rightarrow> False | c # _ \<Rightarrow> c = CHR ''-'');
          s' = (case s of [] \<Rightarrow> [] | c # cs \<Rightarrow> if c = CHR ''+'' \<or> c = CHR ''-'' then cs else s);
          z = takeWhile isDigit s'
      in if z = [] then None
         else Some ((if neg then - 1 else 1) * int (digitsValue z)))"

text \<open>\<open>n || 0\<close> for a number \<open>n\<close> that may be \<open>NaN\<close>.\<close>

definition orZero :: "int option \<Rightarrow> int" where
  "orZero n = (case n of None \<Rightarrow> 0 | Some v \<Rightarrow> v)"

text \<open>
  An object literal or parsed JSON object is an association list in which the first
  binding of a key is the property; \<open>Object.entries\<close> and \<open>Object.keys\<close> list every
  property once. (The engine lists integer-like keys first; no loop below depends on
  the order in which keys are visited.)
\<close>

definition objectEntries :: "(string \<times> 'v) list \<Rightarrow> (string \<times> 'v) list" where
  "objectEntries obj = AList.clearjunk obj"

definition objectKeys :: "(string \<times> 'v) list \<Rightarrow> string list" where
  "objectKeys obj = map fst (AList.clearjunk obj)"

text \<open>Decimal rendering of an array index, as in the keys of an array or a string.\<close>

definition digitChar :: "nat \<Rightarrow> char" where
  "digitChar d = ''0123456789'' ! d"

function showNat :: "nat \<Rightarrow> string" where
  "showNat n =
     (if n < 10 then [digitChar n]
      else showNat (n div 10) @ [digitChar (n mod 10)])"
  by pat_completeness auto
termination
  by (relation "measure id") auto

declare showNat.simps [simp del]

text \<open>
  Values of unknown shape, as delivered by the API proxy: JSON values and \<open>undefined\<close>.
\<close>

datatype jsvalue =
    JUndefined
  | JNull
  | JBool bool
  | JNum rat
  | JStr string
  | JArr "jsvalue list"
  | JObj "(string \<times> jsvalue) list"

datatype jserror = TypeError

text \<open>Truthiness, and \<open>typeof v === 'object'\<close> (which holds for \<open>null\<close> and for arrays).\<close>

fun truthy :: "jsvalue \<Rightarrow> bool" where
  "truthy JUndefined = False"
| "truthy JNull = False"
| "truthy (JBool b) = b"
| "truthy (JNum n) = (n \<noteq> 0)"
| "truthy (JStr s) = (s \<noteq> [])"
| "truthy (JArr xs) = True"
| "truthy (JObj kvs) = True"

fun typeofObject :: "jsvalue \<Rightarrow> bool" where
  "typeofObject JNull = True"
| "typeofObject (JArr xs) = True"
| "typeofObject (JObj kvs) = True"
| "typeofObject v = False"

text \<open>
  \<open>v[k]\<close> for a key \<open>k\<close> that is neither an array index, nor \<open>length\<close>, nor a property
  inherited from a prototype; the keys read below (\<open>metadata\<close>, \<open>labels\<close>, \<open>status\<close>,
  \<open>capacity\<close> and three label names) are of this kind. Reading a property of
  \<open>undefined\<close> or \<open>null\<close> throws; on an array, a string, a number or a boolean such a
  key reads as \<open>undefined\<close>.
\<close>

fun getProp :: "jsvalue \<Rightarrow> string \<Rightarrow> jserror + jsvalue" where
  "getProp JUndefined k = Inl TypeError"
| "getProp JNull k = Inl TypeError"
| "getProp (JObj kvs) k = Inr (case map_of kvs k of None \<Rightarrow> JUndefined | Some v \<Rightarrow> v)"
| "getProp v k = Inr JUndefined"

text \<open>\<open>v?.[k]\<close>\<close>

fun optProp :: "jsvalue \<Rightarrow> string \<Rightarrow> jserror + jsvalue" where
  "optProp JUndefined k = Inr JUndefined"
| "optProp JNull k = Inr JUndefined"
| "optProp v k = getProp v k"

text \<open>\<open>Object.keys(v)\<close>: throws on \<open>undefined\<close> and \<open>null\<close>; the keys of an array or a
  string are its indices; a number or a boolean has none.\<close>

fun keysOf :: "jsvalue \<Rightarrow> jserror + string list" where
  "keysOf JUndefined = Inl TypeError"
| "keysOf JNull = Inl TypeError"
| "keysOf (JObj kvs) = Inr (objectKeys kvs)"
| "keysOf (JArr xs) = Inr (map showNat [0..<length xs])"
| "keysOf (JStr s) = Inr (map showNat [0..<length s])"
| "keysOf v = Inr []"

text \<open>Sequencing of computations that may throw.\<close>

definition bindE :: "jserror + 'a \<Rightarrow> ('a \<Rightarrow> jserror + 'b) \<Rightarrow> jserror + 'b" where
  "bindE m f = (case m of Inl e \<Rightarrow> Inl e | Inr v \<Rightarrow> f v)"

section \<open>Kubernetes helpers (api/k8s.ts)\<close>

subsection \<open>Constants\<close>

definition INTEL_GPU_RESOURCE :: string where
  "INTEL_GPU_RESOURCE = ''gpu.intel.com/i915''"

definition INTEL_GPU_XE_RESOURCE :: string where
  "INTEL_GPU_XE_RESOURCE = ''gpu.intel.com/xe''"

definition INTEL_GPU_MILLICORES_RESOURCE :: string where
  "INTEL_GPU_MILLICORES_RESOURCE = ''gpu.intel.com/millicores''"

definition INTEL_GPU_MEMORY_RESOURCE :: string where
  "INTEL_GPU_MEMORY_RESOURCE = ''gpu.intel.com/memory.max''"

definition INTEL_GPU_RESOURCE_PREFIX :: string where
  "INTEL_GPU_RESOURCE_PREFIX = ''gpu.intel.com/''"

definition INTEL_GPU_NODE_LABEL :: string where
  "INTEL_GPU_NODE_LABEL = ''intel.feature.node.kubernetes.io/gpu''"

definition INTEL_DISCRETE_GPU_NODE_ROLE :: string where
  "INTEL_DISCRETE_GPU_NODE_ROLE = ''node-role.kubernetes.io/gpu''"

definition INTEL_INTEGRATED_GPU_NODE_ROLE :: string where
  "INTEL_INTEGRATED_GPU_NODE_ROLE = ''node-role.kubernetes.io/igpu''"

subsection \<open>Classifying a value of unknown shape as a GPU node\<close>

text \<open>
  \<open>isIntelGpuNode(node: unknown)\<close>. Every property read is one that can throw in
  JavaScript, so the model returns \<open>Inl TypeError\<close> where the engine would throw. The
  three label tests are the operands of \<open>||\<close>, evaluated left to right.
\<close>

definition labelIsTrue :: "jsvalue \<Rightarrow> string \<Rightarrow> jserror + bool" where
  "labelIsTrue labels k = bindE (getProp labels k) (\<lambda>v. Inr (v = JStr ''true''))"

definition anyGpuLabel :: "jsvalue \<Rightarrow> jserror + bool" where
  "anyGpuLabel labels =
     bindE (labelIsTrue labels INTEL_GPU_NODE_LABEL) (\<lambda>a.
       if a then Inr True
       else bindE (labelIsTrue labels INTEL_DISCRETE_GPU_NODE_ROLE) (\<lambda>b.
         if b then Inr True
         else labelIsTrue labels INTEL_INTEGRATED_GPU_NODE_ROLE))"

definition isIntelGpuNode :: "jsvalue \<Rightarrow> jserror + bool" where
  "isIntelGpuNode node =
     (if \<not> truthy node \<or> \<not> typeofObject node then Inr False
      else
        bindE (getProp node ''metadata'') (\<lambda>meta.
        bindE (optProp meta ''labels'') (\<lambda>labels.
        bindE (getProp node ''status'') (\<lambda>status.
        bindE (optProp status ''capacity'') (\<lambda>capacity.
        bindE (if truthy labels then anyGpuLabel labels else Inr False) (\<lambda>byLabel.
          if byLabel then Inr True
          else if truthy capacity then
            bindE (keysOf capacity) (\<lambda>keys.
              Inr (list_ex (\<lambda>key. startsWith key INTEL_GPU_RESOURCE_PREFIX) keys))
          else Inr False))))))"

text \<open>
  The classification in the words of the specification: the value is an object whose
  \<open>metadata.labels\<close> carries one of the three labels with the string \<open>"true"\<close>, or
  whose \<open>status.capacity\<close> object has a key that starts with \<open>gpu.intel.com/\<close>.
\<close>

fun objField :: "jsvalue \<Rightarrow> string \<Rightarrow> jsvalue option" where
  "objField (JObj kvs) k = map_of kvs k"
| "objField v k = None"

definition nodeLabel :: "jsvalue \<Rightarrow> string \<Rightarrow> jsvalue option" where
  "nodeLabel x k =
     (case objField x ''metadata'' of
        None \<Rightarrow> None
      | Some m \<Rightarrow> (case objField m ''labels'' of None \<Rightarrow> None | Some l \<Rightarrow> objField l k))"

definition hasGpuLabel :: "jsvalue \<Rightarrow> bool" where
  "hasGpuLabel x =
     (nodeLabel x ''intel.feature.node.kubernetes.io/gpu'' = Some (JStr ''true'')
      \<or> nodeLabel x ''node-role.kubernetes.io/gpu'' = Some (JStr ''true'')
      \<or> nodeLabel x ''node-role.kubernetes.io/igpu'' = Some (JStr ''true''))"

definition hasGpuCapacityKey :: "jsvalue \<Rightarrow> bool" where
  "hasGpuCapacityKey x =
     (case objField x ''status'' of
        None \<Rightarrow> False
      | Some s \<Rightarrow>
          (case objField s ''capacity'' of
             Some (JObj c) \<Rightarrow> (\<exists>k \<in> fst ` set c. prefix ''gpu.intel.com/'' k)
           | _ \<Rightarrow> False))"

subsection \<open>Typed nodes\<close>

text \<open>
  \<open>NodeResources\<close> is an object whose values are strings or \<open>undefined\<close>;
  \<open>NodeStatus\<close> and \<open>IntelGpuNode\<close> carry the fields the functions below read.
\<close>

type_synonym NodeResources = "(string \<times> string option) list"

record NodeStatus =
  capacity :: "NodeResources option"
  allocatable :: "NodeResources option"

record KubeObjectMeta =
  name :: string
  namespace :: "string option"
  labels :: "(string \<rightharpoonup> string) option"
  uid :: "string option"

record IntelGpuNode =
  node_metadata :: KubeObjectMeta
  node_status :: "NodeStatus option"

text \<open>\<open>node.status?.capacity ?? {}\<close> and \<open>node.status?.allocatable ?? {}\<close>\<close>

definition nodeCapacity :: "IntelGpuNode \<Rightarrow> NodeResources" where
  "nodeCapacity node =
     (case node_status node of
        None \<Rightarrow> []
      | Some st \<Rightarrow> (case capacity st of None \<Rightarrow> [] | Some c \<Rightarrow> c))"

definition nodeAllocatable :: "IntelGpuNode \<Rightarrow> NodeResources" where
  "nodeAllocatable node =
     (case node_status node of
        None \<Rightarrow> []
      | Some st \<Rightarrow> (case allocatable st of None \<Rightarrow> [] | Some c \<Rightarrow> c))"

text \<open>The body of the loop of \<open>getNodeGpuCount\<close>, and the loop over the entries.\<close>

definition countEntry :: "int \<Rightarrow> string \<times> string option \<Rightarrow> int" where
  "countEntry count e =
     (case e of (key, val) \<Rightarrow>
        (case val of
           None \<Rightarrow> count
         | Some v \<Rightarrow>
             if (key = INTEL_GPU_RESOURCE \<or> key = INTEL_GPU_XE_RESOURCE) \<and> v \<noteq> []
             then count + orZero (parseInt v)
             else count))"

definition getNodeGpuCount :: "IntelGpuNode \<Rightarrow> int" where
  "getNodeGpuCount node = foldl countEntry 0 (objectEntries (nodeCapacity node))"

text \<open>
  What one capacity key contributes in the words of the specification: its value parsed
  as an integer, and 0 when the key is absent or the value is not numeric.
\<close>

definition parsedQuantity :: "NodeResources \<Rightarrow> string \<Rightarrow> int" where
  "parsedQuantity res key =
     (case map_of res key of
        Some (Some v) \<Rightarrow> (case parseInt v of None \<Rightarrow> 0 | Some n \<Rightarrow> n)
      | _ \<Rightarrow> 0)"

text \<open>Sample nodes, after the unit tests' \<open>makeNode\<close>.\<close>

definition nodeWithResources :: "NodeResources \<Rightarrow> NodeResources option \<Rightarrow> IntelGpuNode" where
  "nodeWithResources c a =
     \<lparr>node_metadata = \<lparr>name = ''test-node'', namespace = None, labels = None, uid = None\<rparr>,
      node_status = Some \<lparr>capacity = Some c, allocatable = a\<rparr>\<rparr>"

definition nodeWithCapacity :: "NodeResources \<Rightarrow> IntelGpuNode" where
  "nodeWithCapacity c = nodeWithResources c None"

subsection \<open>Device plugin status\<close>

text \<open>
  The status counters of a \<open>GpuDevicePlugin\<close> custom resource are optional numbers; the
  \<open>status\<close> block itself is optional. The counters are Kubernetes replica counts, modelled
  as integers.
\<close>

record GpuDevicePluginStatus =
  desiredNumberScheduled :: "int option"
  numberReady :: "int option"
  numberUnavailable :: "int option"
  numberAvailable :: "int option"

record GpuDevicePlugin =
  plugin_status :: "GpuDevicePluginStatus option"

datatype StatusLabel = Success | Warning | Error

text \<open>\<open>plugin.status?.f ?? 0\<close>: a missing status block or a missing counter reads as 0.\<close>

definition statusCounter ::
  "(GpuDevicePluginStatus \<Rightarrow> int option) \<Rightarrow> GpuDevicePlugin \<Rightarrow> int" where
  "statusCounter f plugin =
     (case plugin_status plugin of
        None \<Rightarrow> 0
      | Some s \<Rightarrow> (case f s of None \<Rightarrow> 0 | Some n \<Rightarrow> n))"

definition pluginStatusToStatus :: "GpuDevicePlugin \<Rightarrow> StatusLabel" where
  "pluginStatusToStatus plugin =
     (let desired = statusCounter desiredNumberScheduled plugin;
          ready = statusCounter numberReady plugin;
          unavailable = statusCounter numberUnavailable plugin
      in if desired = 0 then Warning
         else if unavailable > 0 then Warning
         else if ready = desired then Success
         else Error)"

text \<open>The plugin built by the unit tests' \<open>makePlugin(desired, ready, unavailable)\<close>.\<close>

definition makePlugin :: "int \<Rightarrow> int \<Rightarrow> int \<Rightarrow> GpuDevicePlugin" where
  "makePlugin d r u =
     \<lparr>plugin_status = Some \<lparr>desiredNumberScheduled = Some d, numberReady = Some r,
        numberUnavailable = Some u, numberAvailable = None\<rparr>\<rparr>"

subsection \<open>Pods\<close>

record IntelGpuPod =
  pod_metadata :: KubeObjectMeta

text \<open>
  \<open>isIntelGpuPluginPod\<close> on a pod object: the pod has labels and one of three of them
  names the plugin.
\<close>

definition isIntelGpuPluginPod :: "IntelGpuPod \<Rightarrow> bool" where
  "isIntelGpuPluginPod pod =
     (case labels (pod_metadata pod) of
        None \<Rightarrow> False
      | Some l \<Rightarrow>
          l ''app'' = Some ''intel-gpu-plugin''
          \<or> l ''app.kubernetes.io/name'' = Some ''intel-gpu-plugin''
          \<or> l ''component'' = Some ''intel-gpu-plugin'')"

definition filterIntelGpuPluginPods :: "IntelGpuPod list \<Rightarrow> IntelGpuPod list" where
  "filterIntelGpuPluginPods items = filter isIntelGpuPluginPod items"

definition podUid :: "IntelGpuPod \<Rightarrow> string option" where
  "podUid p = uid (pod_metadata p)"

section \<open>Plugin pod discovery (api/IntelGpuDataContext.tsx)\<close>

text \<open>
  The provider sends three list requests. A request that fails, or whose answer is not a
  list, is ignored (\<open>None\<close>); the plugin pods among the items of every other answer are
  pushed onto \<open>foundPluginPods\<close>, in request order. Duplicates are then removed with a
  filter whose callback closes over the mutable set \<open>seen\<close>; the set is passed
  explicitly here. \<open>!uid\<close> holds for a missing uid and for the empty string.
\<close>

definition pushPluginPods :: "IntelGpuPod list \<Rightarrow> IntelGpuPod list option \<Rightarrow> IntelGpuPod list" where
  "pushPluginPods found response =
     (case response of
        None \<Rightarrow> found
      | Some items \<Rightarrow> found @ filterIntelGpuPluginPods items)"

definition foundPluginPods :: "IntelGpuPod list option list \<Rightarrow> IntelGpuPod list" where
  "foundPluginPods responses = foldl pushPluginPods [] responses"

fun dedupeByUid :: "string set \<Rightarrow> IntelGpuPod list \<Rightarrow> IntelGpuPod list" where
  "dedupeByUid seen [] = []"
| "dedupeByUid seen (p # ps) =
     (case uid (pod_metadata p) of
        None \<Rightarrow> dedupeByUid seen ps
      | Some u \<Rightarrow>
          if u = [] \<or> u \<in> seen then dedupeByUid seen ps
          else p # dedupeByUid (insert u seen) ps)"

definition uniquePluginPods :: "IntelGpuPod list \<Rightarrow> IntelGpuPod list" where
  "uniquePluginPods found = dedupeByUid {} found"

text \<open>A pod carries a UID when \<open>metadata.uid\<close> is present and not empty.\<close>

definition hasUid :: "IntelGpuPod \<Rightarrow> bool" where
  "hasUid p = (case podUid p of None \<Rightarrow> False | Some u \<Rightarrow> u \<noteq> [])"

text \<open>The first pod of a list that carries the UID \<open>u\<close>.\<close>

definition firstWithUid :: "string \<Rightarrow> IntelGpuPod list \<Rightarrow> IntelGpuPod option" where
  "firstWithUid u ps = find (\<lambda>q. podUid q = Some u) ps"

text \<open>
  Sample pods with the label \<open>app=intel-gpu-plugin\<close>: two different entries share the UID
  \<open>abc\<close>, one pod has no UID and one an empty UID.
\<close>

definition mkPod :: "string \<Rightarrow> string option \<Rightarrow> IntelGpuPod" where
  "mkPod n u =
     \<lparr>pod_metadata =
        \<lparr>name = n, namespace = Some ''kube-system'',
         labels = Some [''app'' \<mapsto> ''intel-gpu-plugin''], uid = u\<rparr>\<rparr>"

definition podA :: IntelGpuPod where
  "podA = mkPod ''intel-gpu-plugin-a'' (Some ''abc'')"

definition podA' :: IntelGpuPod where
  "podA' = mkPod ''intel-gpu-plugin-a-again'' (Some ''abc'')"

definition podB :: IntelGpuPod where
  "podB = mkPod ''intel-gpu-plugin-b'' (Some ''def'')"

definition podNoUid :: IntelGpuPod where
  "podNoUid = mkPod ''intel-gpu-plugin-c'' None"

definition podEmptyUid :: IntelGpuPod where
  "podEmptyUid = mkPod ''intel-gpu-plugin-d'' (Some [])"

section \<open>Cluster-wide GPU totals (components/OverviewPage.tsx)\<close>

text \<open>
  The overview page adds the results of \<open>parseInt\<close> to its running totals without a
  fallback, so a total is a number that may be \<open>NaN\<close>; \<open>NaN\<close> absorbs addition.
\<close>

datatype number = NaN | Num int

fun addNumber :: "number \<Rightarrow> number \<Rightarrow> number" where
  "addNumber (Num a) (Num b) = Num (a + b)"
| "addNumber a b = NaN"

definition toNumber :: "int option \<Rightarrow> number" where
  "toNumber r = (case r of None \<Rightarrow> NaN | Some n \<Rightarrow> Num n)"

text \<open>\<open>res[key] ?? '0'\<close>\<close>

definition quantityOrZero :: "NodeResources \<Rightarrow> string \<Rightarrow> string" where
  "quantityOrZero res key = (case map_of res key of Some (Some v) \<Rightarrow> v | _ \<Rightarrow> ''0'')"

text \<open>
  The pair is \<open>(totalCapacityGpus, totalAllocatableGpus)\<close>; \<open>addNodeKey\<close> is the body of
  the loop over the capacity keys of one node, \<open>addNode\<close> the body of the loop over the
  GPU nodes.
\<close>

definition addNodeKey ::
  "NodeResources \<Rightarrow> NodeResources \<Rightarrow> number \<times> number \<Rightarrow> string \<Rightarrow> number \<times> number" where
  "addNodeKey cap alloc totals key =
     (if key = INTEL_GPU_RESOURCE \<or> key = INTEL_GPU_XE_RESOURCE
      then (addNumber (fst totals) (toNumber (parseInt (quantityOrZero cap key))),
            addNumber (snd totals) (toNumber (parseInt (quantityOrZero alloc key))))
      else totals)"

definition addNode :: "number \<times> number \<Rightarrow> IntelGpuNode \<Rightarrow> number \<times> number" where
  "addNode totals node =
     foldl (addNodeKey (nodeCapacity node) (nodeAllocatable node)) totals
       (objectKeys (nodeCapacity node))"

definition overviewGpuTotals :: "IntelGpuNode list \<Rightarrow> number \<times> number" where
  "overviewGpuTotals gpuNodes = foldl addNode (Num 0, Num 0) gpuNodes"

section \<open>Prometheus text parser and metric extraction (api/metrics.ts)\<close>

subsection \<open>Numbers read from the exposition text\<close>

text \<open>
  The result of \<open>parseFloat\<close>. A finite double is represented by the exact decimal
  value of the literal: rounding to the nearest double is not modelled, except that a
  literal at or beyond \<open>2^1024 - 2^970\<close> in magnitude rounds to an infinity, which is
  what decides \<open>Number.isFinite\<close>.
\<close>

datatype float = NotANumber | PlusInfinity | MinusInfinity | Finite rat

definition isFinite :: "float \<Rightarrow> bool" where
  "isFinite f = (case f of Finite q \<Rightarrow> True | _ \<Rightarrow> False)"

definition toFloat :: "rat \<Rightarrow> float" where
  "toFloat q =
     (if 2 ^ 1024 - 2 ^ 970 \<le> \<bar>q\<bar> then (if q < 0 then MinusInfinity else PlusInfinity)
      else Finite q)"

text \<open>\<open>m \<times> 10\<^sup>e\<close> for an integer exponent.\<close>

definition scale10 :: "rat \<Rightarrow> int \<Rightarrow> rat" where
  "scale10 m e = (if 0 \<le> e then m * 10 ^ nat e else m / 10 ^ nat (- e))"

text \<open>
  The exponent part at the head of a string: \<open>e\<close> or \<open>E\<close>, an optional sign and at least
  one digit; anything else is no exponent part and counts 0.
\<close>

definition exponentPart :: "string \<Rightarrow> int" where
  "exponentPart s =
     (case s of
        [] \<Rightarrow> 0
      | c # cs \<Rightarrow>
          if c = CHR ''e'' \<or> c = CHR ''E'' then
            (let neg = (case cs of [] \<Rightarrow> False | d # _ \<Rightarrow> d = CHR ''-'');
                 ds = takeWhile isDigit
                        (case cs of
                           [] \<Rightarrow> []
                         | d # r \<Rightarrow> if d = CHR ''+'' \<or> d = CHR ''-'' then r else cs)
             in if ds = [] then 0
                else (if neg then - int (digitsValue ds) else int (digitsValue ds)))
          else 0)"

text \<open>
  The value of the longest prefix that is an unsigned decimal literal
  (\<open>digits\<close>, \<open>digits.\<close>, \<open>digits.digits\<close> or \<open>.digits\<close>, each with an optional exponent
  part), or \<open>None\<close> when no prefix is one.
\<close>

definition decimalLiteral :: "string \<Rightarrow> rat option" where
  "decimalLiteral s =
     (let ip = takeWhile isDigit s;
          r1 = dropWhile isDigit s;
          dot = (case r1 of [] \<Rightarrow> False | c # _ \<Rightarrow> c = CHR ''.'');
          fp = (if dot then takeWhile isDigit (tl r1) else []);
          r2 = (if dot then dropWhile isDigit (tl r1) else r1)
      in if ip = [] \<and> fp = [] then None
         else Some (scale10
                (of_nat (digitsValue ip) + of_nat (digitsValue fp) / 10 ^ length fp)
                (exponentPart r2)))"

definition parseFloat :: "string \<Rightarrow> float" where
  "parseFloat str =
     (let s = trimStart str;
          neg = (case s of [] \<Rightarrow> False | c # _ \<Rightarrow> c = CHR ''-'');
          body = (case s of [] \<Rightarrow> [] | c # cs \<Rightarrow> if c = CHR ''+'' \<or> c = CHR ''-'' then cs else s)
      in if startsWith body ''Infinity'' then (if neg then MinusInfinity else PlusInfinity)
         else (case decimalLiteral body of
                 None \<Rightarrow> NotANumber
               | Some m \<Rightarrow> toFloat (if neg then - m else m)))"

subsection \<open>Types\<close>

text \<open>
  A sample value is a finite number: the parser stores a value only after
  \<open>Number.isFinite\<close>. The label record is read and written by key.
\<close>

record MetricSample =
  sample_labels :: "string \<rightharpoonup> string"
  sample_value :: rat

record MetricFamily =
  family_name :: string
  family_help :: string
  family_type :: string
  family_samples :: "MetricSample list"

text \<open>A \<open>Map\<close> keeps its keys in insertion order; \<open>set\<close> on a present key keeps its place.\<close>

type_synonym ParsedMetrics = "(string \<times> MetricFamily) list"

record EngineUtilization =
  eu_card :: string
  eu_engine :: string
  eu_pct :: int

record CardValue =
  cv_card :: string
  cv_value :: rat

record GpuNodeMetrics =
  nodeName :: string
  podName :: string
  engineUtilization :: "EngineUtilization list"
  boostFreqMhz :: "CardValue list"
  memoryLocalBytes :: "CardValue list"
  memorySystemBytes :: "CardValue list"
  energyMicrojoules :: "CardValue list"
  raw :: ParsedMetrics

subsection \<open>Label block\<close>

text \<open>\<open>\w\<close> without the unicode flag: ASCII letters, digits and the underscore.\<close>

definition isWordChar :: "char \<Rightarrow> bool" where
  "isWordChar c =
     (let n = (of_char c :: nat)
      in (65 \<le> n \<and> n \<le> 90) \<or> (97 \<le> n \<and> n \<le> 122) \<or> (48 \<le> n \<and> n \<le> 57) \<or> n = 95)"

text \<open>
  A match of \<open>/(\w+)="([^"]*)"/\<close> that starts at the head of the string: the key, the
  value and the text after the match. Both groups are greedy and what must follow each
  of them is a character the group cannot hold, so only the longest runs can match.
\<close>

definition matchLabelPair :: "string \<Rightarrow> (string \<times> string \<times> string) option" where
  "matchLabelPair s =
     (let key = takeWhile isWordChar s;
          r1 = dropWhile isWordChar s
      in if key = [] then None
         else (case r1 of
                 c1 # c2 # r2 \<Rightarrow>
                   if c1 = CHR ''='' \<and> c2 = CHR 0x22 then
                     (case dropWhile (\<lambda>c. c \<noteq> CHR 0x22) r2 of
                        [] \<Rightarrow> None
                      | q # rest \<Rightarrow> Some (key, takeWhile (\<lambda>c. c \<noteq> CHR 0x22) r2, rest))
                   else None
               | _ \<Rightarrow> None))"

lemma matchLabelPair_shorter:
  assumes "matchLabelPair s = Some (k, v, rest)"
  shows "length rest < length s"
proof -
  from assms obtain r2 q where r1: "dropWhile isWordChar s = CHR ''='' # CHR 0x22 # r2"
    and r3: "dropWhile (\<lambda>c. c \<noteq> CHR 0x22) r2 = q # rest"
    by (auto simp: matchLabelPair_def Let_def split: if_splits list.splits)
  have "length rest < length (dropWhile (\<lambda>c. c \<noteq> CHR 0x22) r2)"
    by (simp add: r3)
  also have "\<dots> \<le> length r2"
    by (rule length_dropWhile_le)
  also have "\<dots> < length (dropWhile isWordChar s)"
    by (simp add: r1)
  also have "\<dots> \<le> length s"
    by (rule length_dropWhile_le)
  finally show ?thesis .
qed

text \<open>
  \<open>labels[key] = val\<close> on an object literal: the key \<open>__proto__\<close> reaches the inherited
  setter, which ignores a string, and creates no property.
\<close>

definition setLabel :: "(string \<rightharpoonup> string) \<Rightarrow> string \<Rightarrow> string \<Rightarrow> (string \<rightharpoonup> string)" where
  "setLabel lbls k v = (if k = ''__proto__'' then lbls else lbls(k \<mapsto> v))"

text \<open>
  The \<open>exec\<close> loop of \<open>parseLabels\<close>: the leftmost match at or after the current
  position is recorded and the search resumes after it; without a match at the current
  position the search moves one character on.
\<close>

function parseLabelsFrom :: "string \<Rightarrow> (string \<rightharpoonup> string) \<Rightarrow> (string \<rightharpoonup> string)" where
  "parseLabelsFrom [] lbls = lbls"
| "parseLabelsFrom (c # cs) lbls =
     (case matchLabelPair (c # cs) of
        None \<Rightarrow> parseLabelsFrom cs lbls
      | Some (k, v, rest) \<Rightarrow> parseLabelsFrom rest (setLabel lbls k v))"
  by pat_completeness auto
termination
  by (relation "measure (\<lambda>(s, lbls). length s)")
    (auto dest: matchLabelPair_shorter)

definition parseLabels :: "string \<Rightarrow> (string \<rightharpoonup> string)" where
  "parseLabels labelStr = parseLabelsFrom labelStr Map.empty"

subsection \<open>Lines\<close>

record ParserState =
  families :: ParsedMetrics
  currentName :: string
  currentHelp :: string
  currentType :: string

definition initialState :: ParserState where
  "initialState = \<lparr>families = [], currentName = [], currentHelp = [], currentType = []\<rparr>"

text \<open>
  The split of a data line into metric name, labels and value part: with braces when
  the first \<open>{\<close> comes before the last \<open>}\<close>, otherwise at the last space; a line with
  neither is skipped (\<open>None\<close>).
\<close>

definition splitDataLine :: "string \<Rightarrow> (string \<times> (string \<rightharpoonup> string) \<times> string) option" where
  "splitDataLine line =
     (let openBrace = indexOf CHR ''{'' line;
          closeBrace = lastIndexOf CHR ''}'' line;
          braces = (case (openBrace, closeBrace) of
                      (Some ob, Some cb) \<Rightarrow> if cb > ob then Some (ob, cb) else None
                    | _ \<Rightarrow> None)
      in case braces of
           Some (ob, cb) \<Rightarrow>
             Some (slice line 0 ob, parseLabels (slice line (ob + 1) cb),
                   trim (sliceFrom line (cb + 1)))
         | None \<Rightarrow>
             (case lastIndexOf CHR '' '' line of
                None \<Rightarrow> None
              | Some spaceIdx \<Rightarrow>
                  Some (slice line 0 spaceIdx, Map.empty, trim (sliceFrom line (spaceIdx + 1)))))"

text \<open>\<open>valuePart.split(' ')[0] ?? ''\<close>\<close>

definition firstToken :: "string \<Rightarrow> string" where
  "firstToken valuePart = (case split CHR '' '' valuePart of [] \<Rightarrow> [] | t # ts \<Rightarrow> t)"

text \<open>
  Looking the family up, creating it on first sight with the help and type of the
  current name, and pushing the sample.
\<close>

definition addSample :: "ParserState \<Rightarrow> string \<Rightarrow> MetricSample \<Rightarrow> ParsedMetrics" where
  "addSample st metricName sample =
     (let family =
            (case map_of (families st) metricName of
               Some f \<Rightarrow> f
             | None \<Rightarrow>
                 \<lparr>family_name = metricName,
                  family_help = (if metricName = currentName st then currentHelp st else []),
                  family_type = (if metricName = currentName st then currentType st else []),
                  family_samples = []\<rparr>)
      in AList.update metricName
           (family\<lparr>family_samples := family_samples family @ [sample]\<rparr>) (families st))"

text \<open>The body of the loop over the lines.\<close>

definition parseLine :: "ParserState \<Rightarrow> string \<Rightarrow> ParserState" where
  "parseLine st rawLine =
     (let line = trim rawLine
      in if line = [] then st
         else if startsWith line ''# HELP '' then
           (let rest = sliceFrom line 7
            in case indexOf CHR '' '' rest of
                 Some spaceIdx \<Rightarrow>
                   st\<lparr>currentName := slice rest 0 spaceIdx,
                      currentHelp := sliceFrom rest (spaceIdx + 1)\<rparr>
               | None \<Rightarrow> st\<lparr>currentName := rest, currentHelp := []\<rparr>)
         else if startsWith line ''# TYPE '' then
           (let rest = sliceFrom line 7
            in case indexOf CHR '' '' rest of
                 Some spaceIdx \<Rightarrow> st\<lparr>currentType := sliceFrom rest (spaceIdx + 1)\<rparr>
               | None \<Rightarrow> st\<lparr>currentType := []\<rparr>)
         else if startsWith line ''#'' then st
         else (case splitDataLine line of
                 None \<Rightarrow> st
               | Some (metricName, lbls, valuePart) \<Rightarrow>
                   (case parseFloat (firstToken valuePart) of
                      Finite v \<Rightarrow>
                        st\<lparr>families :=
                             addSample st metricName
                               \<lparr>sample_labels = lbls, sample_value = v\<rparr>\<rparr>
                    | _ \<Rightarrow> st)))"

definition parseLines :: "string list \<Rightarrow> ParserState" where
  "parseLines ls = foldl parseLine initialState ls"

definition parsePrometheusText :: "string \<Rightarrow> ParsedMetrics" where
  "parsePrometheusText text = families (parseLines (split CHR 0x0A text))"

subsection \<open>Extraction\<close>

definition samplesFor :: "ParsedMetrics \<Rightarrow> string \<Rightarrow> MetricSample list" where
  "samplesFor fams n = (case map_of fams n of None \<Rightarrow> [] | Some f \<Rightarrow> family_samples f)"

text \<open>\<open>labels['card'] ?? labels['gpu'] ?? 'gpu0'\<close>, and the same without the literal.\<close>

definition cardOf :: "(string \<rightharpoonup> string) \<Rightarrow> string" where
  "cardOf lbls =
     (case lbls ''card'' of
        Some c \<Rightarrow> c
      | None \<Rightarrow> (case lbls ''gpu'' of Some g \<Rightarrow> g | None \<Rightarrow> ''gpu0''))"

definition rawCardOf :: "(string \<rightharpoonup> string) \<Rightarrow> string option" where
  "rawCardOf lbls = (case lbls ''card'' of Some c \<Rightarrow> Some c | None \<Rightarrow> lbls ''gpu'')"

definition engineOf :: "(string \<rightharpoonup> string) \<Rightarrow> string" where
  "engineOf lbls = (case lbls ''engine'' of Some e \<Rightarrow> e | None \<Rightarrow> ''render/0'')"

text \<open>The callback of \<open>totalSamples.find\<close>.\<close>

definition totalMatches :: "string \<Rightarrow> string \<Rightarrow> MetricSample \<Rightarrow> bool" where
  "totalMatches cardName engineName s =
     (rawCardOf (sample_labels s) = Some cardName
      \<and> sample_labels s ''engine'' = Some engineName)"

text \<open>\<open>Math.round\<close> rounds to the nearest integer, a half upwards.\<close>

definition mathRound :: "rat \<Rightarrow> int" where
  "mathRound x = \<lfloor>x + 1 / 2\<rfloor>"

text \<open>The body of the loop over the active samples.\<close>

definition utilizationOf :: "MetricSample list \<Rightarrow> MetricSample \<Rightarrow> EngineUtilization" where
  "utilizationOf totalSamples active =
     (let cardName = cardOf (sample_labels active);
          engineName = engineOf (sample_labels active);
          totalSample = find (totalMatches cardName engineName) totalSamples;
          total = (case totalSample of None \<Rightarrow> 0 | Some s \<Rightarrow> sample_value s);
          pct = (if total > 0
                 then min 100 (mathRound (sample_value active / total * 100))
                 else 0)
      in \<lparr>eu_card = cardName, eu_engine = engineName, eu_pct = pct\<rparr>)"

definition cardValue :: "MetricSample \<Rightarrow> CardValue" where
  "cardValue s = \<lparr>cv_card = cardOf (sample_labels s), cv_value = sample_value s\<rparr>"

definition extractGpuNodeMetrics :: "ParsedMetrics \<Rightarrow> string \<Rightarrow> string \<Rightarrow> GpuNodeMetrics" where
  "extractGpuNodeMetrics fams node pod =
     (let activeSamples = samplesFor fams ''gpu_i915_engine_active_ticks'';
          totalSamples = samplesFor fams ''gpu_i915_engine_total_ticks''
      in \<lparr>nodeName = node,
          podName = pod,
          engineUtilization = map (utilizationOf totalSamples) activeSamples,
          boostFreqMhz = map cardValue (samplesFor fams ''gpu_i915_gt_boost_freq_mhz''),
          memoryLocalBytes = map cardValue (samplesFor fams ''gpu_i915_memory_local''),
          memorySystemBytes = map cardValue (samplesFor fams ''gpu_i915_memory_system''),
          energyMicrojoules = map cardValue (samplesFor fams ''gpu_i915_energy_microjoules''),
          raw = fams\<rparr>)"

subsection \<open>Reading the exposition text line by line\<close>

text \<open>
  What a raw line is, in the words of the specification: a \<open># HELP\<close> line with its
  name and help text, a \<open># TYPE\<close> line with its name and type string, or a data line with
  a finite value, with its metric name and sample. The name of a \<open># TYPE\<close> line is the
  part the parser never reads.
\<close>

definition splitAtSpace :: "string \<Rightarrow> string \<times> string" where
  "splitAtSpace rest =
     (takeWhile (\<lambda>c. c \<noteq> CHR '' '') rest, tl (dropWhile (\<lambda>c. c \<noteq> CHR '' '') rest))"

definition helpLine :: "string \<Rightarrow> (string \<times> string) option" where
  "helpLine rawLine =
     (if startsWith (trim rawLine) ''# HELP '' then Some (splitAtSpace (drop 7 (trim rawLine)))
      else None)"

definition typeLine :: "string \<Rightarrow> (string \<times> string) option" where
  "typeLine rawLine =
     (if startsWith (trim rawLine) ''# TYPE '' then Some (splitAtSpace (drop 7 (trim rawLine)))
      else None)"

text \<open>
  The value token of a data line (a line that is not blank and does not start with
  \<open>#\<close>, and that splits into name, labels and value part), and the sample of a data line
  whose value token is a finite number.
\<close>

definition dataLine :: "string \<Rightarrow> (string \<times> (string \<rightharpoonup> string) \<times> string) option" where
  "dataLine rawLine =
     (if trim rawLine = [] \<or> startsWith (trim rawLine) ''#'' then None
      else splitDataLine (trim rawLine))"

definition valueToken :: "string \<Rightarrow> string option" where
  "valueToken rawLine =
     (case dataLine rawLine of
        None \<Rightarrow> None
      | Some (metricName, lbls, valuePart) \<Rightarrow> Some (firstToken valuePart))"

definition sampleLine :: "string \<Rightarrow> (string \<times> MetricSample) option" where
  "sampleLine rawLine =
     (case dataLine rawLine of
        None \<Rightarrow> None
      | Some (metricName, lbls, valuePart) \<Rightarrow>
          (case parseFloat (firstToken valuePart) of
             Finite v \<Rightarrow> Some (metricName, \<lparr>sample_labels = lbls, sample_value = v\<rparr>)
           | _ \<Rightarrow> None))"

definition sampleName :: "string \<Rightarrow> string option" where
  "sampleName rawLine = map_option fst (sampleLine rawLine)"

text \<open>The most recent \<open># HELP\<close> and \<open># TYPE\<close> line of a list of lines.\<close>

definition lastHelp :: "string list \<Rightarrow> (string \<times> string) option" where
  "lastHelp ls = (case List.map_filter helpLine (rev ls) of [] \<Rightarrow> None | h # hs \<Rightarrow> Some h)"

definition lastType :: "string list \<Rightarrow> (string \<times> string) option" where
  "lastType ls = (case List.map_filter typeLine (rev ls) of [] \<Rightarrow> None | t # ts \<Rightarrow> Some t)"

text \<open>The lines that precede the first data line of a family.\<close>

definition linesBefore :: "string \<Rightarrow> string list \<Rightarrow> string list" where
  "linesBefore n ls = takeWhile (\<lambda>l. sampleName l \<noteq> Some n) ls"

text \<open>
  The name, help text and type that are current after a list of lines: those of the
  most recent \<open># HELP\<close> line and the type string of the most recent \<open># TYPE\<close> line, or
  empty strings.
\<close>

definition nameAfter :: "string list \<Rightarrow> string" where
  "nameAfter ls = (case lastHelp ls of None \<Rightarrow> [] | Some (n, h) \<Rightarrow> n)"

definition helpAfter :: "string list \<Rightarrow> string" where
  "helpAfter ls = (case lastHelp ls of None \<Rightarrow> [] | Some (n, h) \<Rightarrow> h)"

definition typeAfter :: "string list \<Rightarrow> string" where
  "typeAfter ls = (case lastType ls of None \<Rightarrow> [] | Some (n, t) \<Rightarrow> t)"

text \<open>The samples of a family, in line order.\<close>

definition samplesOf :: "string \<Rightarrow> string list \<Rightarrow> MetricSample list" where
  "samplesOf n ls = map snd (filter (\<lambda>e. fst e = n) (List.map_filter sampleLine ls))"

text \<open>The family that a list of lines gives to a metric name.\<close>

definition familyOf :: "string \<Rightarrow> string list \<Rightarrow> MetricFamily option" where
  "familyOf n ls =
     (if samplesOf n ls = [] then None
      else Some \<lparr>family_name = n,
                 family_help = (if n = nameAfter (linesBefore n ls)
                                then helpAfter (linesBefore n ls) else []),
                 family_type = (if n = nameAfter (linesBefore n ls)
                                then typeAfter (linesBefore n ls) else []),
                 family_samples = samplesOf n ls\<rparr>)"

text \<open>
  The loop invariant of \<open>parsePrometheusText\<close>: after the lines \<open>ls\<close> the three
  current strings are those of the most recent metadata lines, and the map holds for
  every metric name the family that \<open>ls\<close> gives it.
\<close>

definition parsed :: "string list \<Rightarrow> ParserState \<Rightarrow> bool" where
  "parsed ls st \<longleftrightarrow>
     currentName st = nameAfter ls \<and> currentHelp st = helpAfter ls \<and> currentType st = typeAfter ls
     \<and> (\<forall>n. map_of (families st) n = familyOf n ls)"



subsection \<open>Sample texts\<close>

text \<open>The two-line example of the specification: 50 active ticks of 100.\<close>

definition utilizationText :: string where
  "utilizationText =
     ''gpu_i915_engine_active_ticks{card=\"card0\",engine=\"render/0\"} 50\<newline>gpu_i915_engine_total_ticks{card=\"card0\",engine=\"render/0\"} 100''"

text \<open>The same readings from an exporter that attaches no \<open>card\<close> or \<open>gpu\<close> label.\<close>

definition unlabelledText :: string where
  "unlabelledText =
     ''gpu_i915_engine_active_ticks{engine=\"render/0\"} 50\<newline>gpu_i915_engine_total_ticks{engine=\"render/0\"} 100''"


text \<open>A \<open># TYPE\<close> line that names another metric than the \<open># HELP\<close> line before it.\<close>

definition mismatchedTypeText :: string where
  "mismatchedTypeText = ''# HELP foo h\<newline># TYPE bar counter\<newline>foo 1''"

text \<open>Four data lines, of which one has a finite value.\<close>

definition malformedValuesText :: string where
  "malformedValuesText = ''up NaN\<newline>up 1\<newline>up abc\<newline>up 1e309''"

section \<open>Evaluation rules\<close>

lemmas js_eval =
  parseInt_def trimStart_def trimEnd_def trim_def isWhiteSpace_def isDigit_def
  digitsValue_def digitVal_def orZero_def objectEntries_def objectKeys_def AList.delete_eq
  startsWith_def split_def slice_def sliceFrom_def bindE_def digitChar_def

lemmas k8s_consts =
  INTEL_GPU_RESOURCE_def INTEL_GPU_XE_RESOURCE_def INTEL_GPU_RESOURCE_PREFIX_def
  INTEL_GPU_NODE_LABEL_def INTEL_DISCRETE_GPU_NODE_ROLE_def INTEL_INTEGRATED_GPU_NODE_ROLE_def
  INTEL_GPU_MILLICORES_RESOURCE_def INTEL_GPU_MEMORY_RESOURCE_def

lemmas node_eval =
  nodeWithCapacity_def nodeWithResources_def nodeCapacity_def nodeAllocatable_def

section \<open>Node classification\<close>

lemma startsWith_iff: "startsWith s p \<longleftrightarrow> (\<exists>r. s = p @ r)"
  unfolding startsWith_def
  by (metis append_eq_conv_conj append_take_drop_id)

text \<open>An index key starts with a digit, so it never starts with \<open>gpu.intel.com/\<close>.\<close>

lemma showNat_hd: "showNat n \<noteq> [] \<and> hd (showNat n) \<in> set ''0123456789''"
proof (induction n rule: showNat.induct)
  case (1 n)
  show ?case
  proof (cases "n < 10")
    case True
    then have "n \<in> {0,1,2,3,4,5,6,7,8,9}" by auto
    moreover have "showNat n = [digitChar n]" using True by (subst showNat.simps) simp
    ultimately show ?thesis
      by (auto simp: digitChar_def)
  next
    case False
    then have "showNat n = showNat (n div 10) @ [digitChar (n mod 10)]"
      by (subst showNat.simps) simp
    with 1 False show ?thesis by simp
  qed
qed

lemma showNat_no_gpu_prefix: "\<not> startsWith (showNat n) INTEL_GPU_RESOURCE_PREFIX"
proof
  assume "startsWith (showNat n) INTEL_GPU_RESOURCE_PREFIX"
  then obtain r where "showNat n = ''gpu.intel.com/'' @ r"
    by (auto simp: startsWith_iff INTEL_GPU_RESOURCE_PREFIX_def)
  then have "hd (showNat n) = CHR ''g''" by simp
  with showNat_hd [of n] show False by auto
qed

lemma index_keys_no_gpu_prefix:
  "\<not> list_ex (\<lambda>key. startsWith key INTEL_GPU_RESOURCE_PREFIX) (map showNat ns)"
  by (simp add: list_ex_iff showNat_no_gpu_prefix)

lemma objectKeys_set: "set (objectKeys kvs) = fst ` set kvs"
  by (simp add: objectKeys_def dom_clearjunk)

lemma gpu_key_iff:
  "list_ex (\<lambda>key. startsWith key INTEL_GPU_RESOURCE_PREFIX) (objectKeys c)
   \<longleftrightarrow> (\<exists>k \<in> fst ` set c. prefix ''gpu.intel.com/'' k)"
  by (simp add: list_ex_iff objectKeys_set startsWith_iff prefix_def INTEL_GPU_RESOURCE_PREFIX_def)

lemma capacity_scan:
  "truthy cap \<Longrightarrow>
   bindE (keysOf cap)
     (\<lambda>keys. Inr (list_ex (\<lambda>key. startsWith key INTEL_GPU_RESOURCE_PREFIX) keys))
   = Inr (case cap of
            JObj c \<Rightarrow> (\<exists>k \<in> fst ` set c. prefix ''gpu.intel.com/'' k)
          | _ \<Rightarrow> False)"
  by (cases cap) (simp_all add: bindE_def gpu_key_iff index_keys_no_gpu_prefix)

lemma anyGpuLabel_eq:
  "truthy l \<Longrightarrow>
   anyGpuLabel l =
     Inr (objField l ''intel.feature.node.kubernetes.io/gpu'' = Some (JStr ''true'')
          \<or> objField l ''node-role.kubernetes.io/gpu'' = Some (JStr ''true'')
          \<or> objField l ''node-role.kubernetes.io/igpu'' = Some (JStr ''true''))"
  by (cases l)
    (auto simp: anyGpuLabel_def labelIsTrue_def bindE_def INTEL_GPU_NODE_LABEL_def
      INTEL_DISCRETE_GPU_NODE_ROLE_def INTEL_INTEGRATED_GPU_NODE_ROLE_def split: option.splits)

lemma optProp_obj:
  "optProp v k = Inr (case objField v k of None \<Rightarrow> JUndefined | Some w \<Rightarrow> w)"
  by (cases v) simp_all

lemma isIntelGpuNode_object:
  "isIntelGpuNode (JObj kvs) = Inr (hasGpuLabel (JObj kvs) \<or> hasGpuCapacityKey (JObj kvs))"
proof -
  define x where "x = JObj kvs"
  define meta where "meta = (case map_of kvs ''metadata'' of None \<Rightarrow> JUndefined | Some w \<Rightarrow> w)"
  define st where "st = (case map_of kvs ''status'' of None \<Rightarrow> JUndefined | Some w \<Rightarrow> w)"
  define l where "l = (case objField meta ''labels'' of None \<Rightarrow> JUndefined | Some w \<Rightarrow> w)"
  define c where "c = (case objField st ''capacity'' of None \<Rightarrow> JUndefined | Some w \<Rightarrow> w)"
  have meta: "getProp x ''metadata'' = Inr meta" and st: "getProp x ''status'' = Inr st"
    by (simp_all add: x_def meta_def st_def)
  have l: "optProp meta ''labels'' = Inr l" and c: "optProp st ''capacity'' = Inr c"
    by (simp_all add: optProp_obj l_def c_def)
  have byLabel: "(if truthy l then anyGpuLabel l else Inr False) = Inr (hasGpuLabel x)"
  proof (cases "truthy l")
    case True
    have "nodeLabel x k = objField l k" for k
      using True by (auto simp: nodeLabel_def x_def l_def meta_def split: option.splits)
    with True show ?thesis by (simp add: anyGpuLabel_eq hasGpuLabel_def)
  next
    case False
    have "nodeLabel x k \<noteq> Some (JStr ''true'')" for k
    proof (cases "objField meta ''labels''")
      case None
      then show ?thesis by (simp add: nodeLabel_def x_def meta_def split: option.splits)
    next
      case (Some w)
      with False have "\<not> truthy w" by (simp add: l_def)
      then have "objField w k = None" by (cases w) simp_all
      with Some show ?thesis by (simp add: nodeLabel_def x_def meta_def split: option.splits)
    qed
    with False show ?thesis by (simp add: hasGpuLabel_def)
  qed
  have byCap:
    "(if truthy c
      then bindE (keysOf c)
             (\<lambda>keys. Inr (list_ex (\<lambda>key. startsWith key INTEL_GPU_RESOURCE_PREFIX) keys))
      else Inr False) = Inr (hasGpuCapacityKey x)"
  proof (cases "truthy c")
    case True
    then show ?thesis
      by (auto simp: capacity_scan hasGpuCapacityKey_def x_def c_def st_def
          split: option.splits jsvalue.splits)
  next
    case False
    then show ?thesis
      by (auto simp: hasGpuCapacityKey_def x_def c_def st_def split: option.splits jsvalue.splits)
  qed
  have "isIntelGpuNode x = Inr (hasGpuLabel x \<or> hasGpuCapacityKey x)"
    unfolding isIntelGpuNode_def using meta st l c byLabel byCap
    by (simp add: x_def bindE_def)
  then show ?thesis by (simp add: x_def)
qed

lemma not_object_no_gpu:
  "\<forall>kvs. x \<noteq> JObj kvs \<Longrightarrow> \<not> hasGpuLabel x \<and> \<not> hasGpuCapacityKey x"
  by (cases x) (simp_all add: hasGpuLabel_def hasGpuCapacityKey_def nodeLabel_def)

lemma isIntelGpuNode_not_object:
  "\<forall>kvs. x \<noteq> JObj kvs \<Longrightarrow> isIntelGpuNode x = Inr False"
  by (cases x)
    (simp_all add: isIntelGpuNode_def bindE_def)

text \<open>
  C5: for every input, \<open>isIntelGpuNode\<close> returns normally, and it returns true exactly
  when the input is an object that carries one of the three GPU labels with the string
  \<open>"true"\<close> or has a \<open>status.capacity\<close> key that starts with \<open>gpu.intel.com/\<close>. On
  \<open>null\<close>, \<open>undefined\<close>, booleans, numbers, strings and arrays it returns false.
\<close>

theorem isIntelGpuNode_iff_label_or_capacity:
  "isIntelGpuNode x = Inr (hasGpuLabel x \<or> hasGpuCapacityKey x)
   \<and> isIntelGpuNode JNull = Inr False
   \<and> isIntelGpuNode JUndefined = Inr False
   \<and> isIntelGpuNode (JBool b) = Inr False
   \<and> isIntelGpuNode (JNum n) = Inr False
   \<and> isIntelGpuNode (JStr s) = Inr False
   \<and> isIntelGpuNode (JArr xs) = Inr False"
proof -
  have "isIntelGpuNode x = Inr (hasGpuLabel x \<or> hasGpuCapacityKey x)"
  proof (cases "\<exists>kvs. x = JObj kvs")
    case True
    then show ?thesis by (auto simp: isIntelGpuNode_object)
  next
    case False
    then have "\<forall>kvs. x \<noteq> JObj kvs" by simp
    from isIntelGpuNode_not_object [OF this] not_object_no_gpu [OF this]
    show ?thesis by simp
  qed
  then show ?thesis by (simp add: isIntelGpuNode_not_object)
qed

theorem isIntelGpuNode_iff_label_or_capacity_witness:
  "isIntelGpuNode
     (JObj [(''metadata'', JObj [(''name'', JStr ''gpu-node''),
        (''labels'', JObj [(''node-role.kubernetes.io/igpu'', JStr ''true'')])])]) = Inr True
   \<and> isIntelGpuNode
     (JObj [(''status'', JObj [(''capacity'', JObj [(''cpu'', JStr ''8''),
        (''gpu.intel.com/millicores'', JStr ''1000'')])])]) = Inr True
   \<and> isIntelGpuNode
     (JObj [(''metadata'', JObj [(''labels'', JObj [(''node-role.kubernetes.io/gpu'', JStr ''false'')])]),
        (''status'', JObj [(''capacity'', JObj [(''cpu'', JStr ''8'')])])]) = Inr False"
proof -
  have a: "hasGpuLabel
     (JObj [(''metadata'', JObj [(''name'', JStr ''gpu-node''),
        (''labels'', JObj [(''node-role.kubernetes.io/igpu'', JStr ''true'')])])])"
    by (simp add: hasGpuLabel_def nodeLabel_def)
  have b: "hasGpuCapacityKey
     (JObj [(''status'', JObj [(''capacity'', JObj [(''cpu'', JStr ''8''),
        (''gpu.intel.com/millicores'', JStr ''1000'')])])])"
    by (simp add: hasGpuCapacityKey_def)
  have c: "\<not> hasGpuLabel
     (JObj [(''metadata'', JObj [(''labels'', JObj [(''node-role.kubernetes.io/gpu'', JStr ''false'')])]),
        (''status'', JObj [(''capacity'', JObj [(''cpu'', JStr ''8'')])])])"
    by (simp add: hasGpuLabel_def nodeLabel_def)
  have d: "\<not> hasGpuCapacityKey
     (JObj [(''metadata'', JObj [(''labels'', JObj [(''node-role.kubernetes.io/gpu'', JStr ''false'')])]),
        (''status'', JObj [(''capacity'', JObj [(''cpu'', JStr ''8'')])])])"
    by (simp add: hasGpuCapacityKey_def)
  show ?thesis
    using a b c d
      isIntelGpuNode_iff_label_or_capacity [of "JObj [(''metadata'', JObj [(''name'', JStr ''gpu-node''),
        (''labels'', JObj [(''node-role.kubernetes.io/igpu'', JStr ''true'')])])]"]
      isIntelGpuNode_iff_label_or_capacity [of "JObj [(''status'', JObj [(''capacity'', JObj [(''cpu'', JStr ''8''),
        (''gpu.intel.com/millicores'', JStr ''1000'')])])]"]
      isIntelGpuNode_iff_label_or_capacity [of "JObj [(''metadata'', JObj [(''labels'', JObj [(''node-role.kubernetes.io/gpu'', JStr ''false'')])]),
        (''status'', JObj [(''capacity'', JObj [(''cpu'', JStr ''8'')])])]"]
    by simp
qed

section \<open>GPU device count of a node\<close>

lemma parseInt_empty: "parseInt [] = None"
  by (simp add: parseInt_def trimStart_def)

lemma gpu_resources_distinct: "INTEL_GPU_RESOURCE \<noteq> INTEL_GPU_XE_RESOURCE"
  by (simp add: INTEL_GPU_RESOURCE_def INTEL_GPU_XE_RESOURCE_def)

lemma parsedQuantity_absent:
  "key \<notin> fst ` set res \<Longrightarrow> parsedQuantity res key = 0"
  by (simp add: parsedQuantity_def map_of_eq_None_iff [THEN iffD2])

lemma parsedQuantity_Cons:
  "parsedQuantity ((k, v) # res) key =
     (if key = k then (case v of None \<Rightarrow> 0 | Some s \<Rightarrow> orZero (parseInt s))
      else parsedQuantity res key)"
  by (simp add: parsedQuantity_def orZero_def split: option.splits)

text \<open>Over entries with distinct keys the loop adds up the two device-count keys.\<close>

lemma foldl_countEntry:
  "distinct (map fst es) \<Longrightarrow>
   foldl countEntry c es
     = c + parsedQuantity es INTEL_GPU_RESOURCE + parsedQuantity es INTEL_GPU_XE_RESOURCE"
proof (induction es arbitrary: c)
  case Nil
  show ?case by (simp add: parsedQuantity_def)
next
  case (Cons e es)
  obtain k v where e: "e = (k, v)" by (cases e)
  from Cons.prems e have fresh: "k \<notin> fst ` set es" and d: "distinct (map fst es)"
    by auto
  have step: "countEntry c (k, v) =
      c + (if k = INTEL_GPU_RESOURCE \<or> k = INTEL_GPU_XE_RESOURCE
           then (case v of None \<Rightarrow> 0 | Some s \<Rightarrow> orZero (parseInt s)) else 0)"
    by (auto simp: countEntry_def parseInt_empty orZero_def split: option.splits)
  show ?case
    using fresh gpu_resources_distinct
    by (auto simp: e Cons.IH [OF d] step parsedQuantity_Cons parsedQuantity_absent)
qed

lemma parsedQuantity_clearjunk:
  "parsedQuantity (AList.clearjunk res) key = parsedQuantity res key"
  by (simp add: parsedQuantity_def map_of_clearjunk)

lemma getNodeGpuCount_sum:
  "getNodeGpuCount node
     = parsedQuantity (nodeCapacity node) INTEL_GPU_RESOURCE
       + parsedQuantity (nodeCapacity node) INTEL_GPU_XE_RESOURCE"
  unfolding getNodeGpuCount_def objectEntries_def
  by (subst foldl_countEntry) (simp_all add: parsedQuantity_clearjunk)

text \<open>
  C6: \<open>getNodeGpuCount\<close> is the sum of the integer-parsed capacity values (0 when absent
  or not numeric) of the keys \<open>gpu.intel.com/i915\<close> and \<open>gpu.intel.com/xe\<close>; two nodes
  whose capacities agree on these two keys have the same count, whatever their other
  keys hold. The capacity \<open>{i915: "3", xe: "2"}\<close> counts 5, with or without
  \<open>millicores\<close> and \<open>memory.max\<close> entries.
\<close>

theorem getNodeGpuCount_sums_device_keys:
  "getNodeGpuCount node
     = parsedQuantity (nodeCapacity node) ''gpu.intel.com/i915''
       + parsedQuantity (nodeCapacity node) ''gpu.intel.com/xe''
   \<and> (map_of (nodeCapacity node) ''gpu.intel.com/i915''
          = map_of (nodeCapacity node') ''gpu.intel.com/i915''
        \<and> map_of (nodeCapacity node) ''gpu.intel.com/xe''
          = map_of (nodeCapacity node') ''gpu.intel.com/xe''
        \<longrightarrow> getNodeGpuCount node = getNodeGpuCount node')
   \<and> getNodeGpuCount (nodeWithCapacity
        [(''gpu.intel.com/i915'', Some ''3''), (''gpu.intel.com/xe'', Some ''2'')]) = 5
   \<and> getNodeGpuCount (nodeWithCapacity
        [(''gpu.intel.com/millicores'', Some ''4000''), (''gpu.intel.com/i915'', Some ''3''),
         (''gpu.intel.com/memory.max'', Some ''8589934592''), (''gpu.intel.com/xe'', Some ''2''),
         (''cpu'', Some ''16'')]) = 5
   \<and> getNodeGpuCount (nodeWithCapacity
        [(''gpu.intel.com/i915'', Some ''many''), (''gpu.intel.com/xe'', Some ''2'')]) = 2"
proof -
  have sum: "getNodeGpuCount n
     = parsedQuantity (nodeCapacity n) ''gpu.intel.com/i915''
       + parsedQuantity (nodeCapacity n) ''gpu.intel.com/xe''" for n
    using getNodeGpuCount_sum [of n]
    by (simp add: INTEL_GPU_RESOURCE_def INTEL_GPU_XE_RESOURCE_def)
  have agree: "map_of (nodeCapacity node) ''gpu.intel.com/i915''
          = map_of (nodeCapacity node') ''gpu.intel.com/i915''
        \<and> map_of (nodeCapacity node) ''gpu.intel.com/xe''
          = map_of (nodeCapacity node') ''gpu.intel.com/xe''
        \<longrightarrow> getNodeGpuCount node = getNodeGpuCount node'"
    by (simp add: sum parsedQuantity_def)
  have ex1: "getNodeGpuCount (nodeWithCapacity
        [(''gpu.intel.com/i915'', Some ''3''), (''gpu.intel.com/xe'', Some ''2'')]) = 5"
    by (simp add: sum parsedQuantity_def node_eval js_eval)
  have ex2: "getNodeGpuCount (nodeWithCapacity
        [(''gpu.intel.com/millicores'', Some ''4000''), (''gpu.intel.com/i915'', Some ''3''),
         (''gpu.intel.com/memory.max'', Some ''8589934592''), (''gpu.intel.com/xe'', Some ''2''),
         (''cpu'', Some ''16'')]) = 5"
    by (simp add: sum parsedQuantity_def node_eval js_eval)
  have ex3: "getNodeGpuCount (nodeWithCapacity
        [(''gpu.intel.com/i915'', Some ''many''), (''gpu.intel.com/xe'', Some ''2'')]) = 2"
    by (simp add: sum parsedQuantity_def node_eval js_eval)
  from sum [of node] agree ex1 ex2 ex3 show ?thesis by blast
qed

theorem getNodeGpuCount_sums_device_keys_witness:
  "getNodeGpuCount (nodeWithCapacity
      [(''gpu.intel.com/i915'', Some ''3''), (''gpu.intel.com/tiles'', Some ''7'')])
   = getNodeGpuCount (nodeWithCapacity
      [(''gpu.intel.com/millicores'', Some ''9''), (''gpu.intel.com/i915'', Some ''3'')])"
  using getNodeGpuCount_sums_device_keys
    [of "nodeWithCapacity [(''gpu.intel.com/i915'', Some ''3''), (''gpu.intel.com/tiles'', Some ''7'')]"
        "nodeWithCapacity [(''gpu.intel.com/millicores'', Some ''9''), (''gpu.intel.com/i915'', Some ''3'')]"]
  by (simp add: node_eval)

section \<open>Device plugin status\<close>

text \<open>
  C7: \<open>pluginStatusToStatus\<close>, reading missing counters as 0, is \<open>warning\<close> exactly when
  nothing is scheduled or something is unavailable, \<open>success\<close> exactly when neither holds
  and the ready count equals the desired count, and \<open>error\<close> exactly in the remaining
  case; a zero desired count and a positive unavailable count both win over the equality
  of ready and desired. The four sample plugins of the specification evaluate to
  \<open>success\<close>, \<open>warning\<close>, \<open>warning\<close> and \<open>error\<close>.
\<close>

theorem pluginStatusToStatus_cases:
  fixes p :: GpuDevicePlugin
  defines "d \<equiv> statusCounter desiredNumberScheduled p"
    and "r \<equiv> statusCounter numberReady p"
    and "u \<equiv> statusCounter numberUnavailable p"
  shows "(pluginStatusToStatus p = Warning \<longleftrightarrow> d = 0 \<or> u > 0)
       \<and> (pluginStatusToStatus p = Success \<longleftrightarrow> d \<noteq> 0 \<and> u \<le> 0 \<and> r = d)
       \<and> (pluginStatusToStatus p = Error \<longleftrightarrow> d \<noteq> 0 \<and> u \<le> 0 \<and> r \<noteq> d)
       \<and> (d = 0 \<and> r = d \<longrightarrow> pluginStatusToStatus p = Warning)
       \<and> (u > 0 \<and> r = d \<longrightarrow> pluginStatusToStatus p = Warning)
       \<and> pluginStatusToStatus (makePlugin 3 3 0) = Success
       \<and> pluginStatusToStatus
            \<lparr>plugin_status = Some \<lparr>desiredNumberScheduled = Some 0, numberReady = None,
               numberUnavailable = None, numberAvailable = None\<rparr>\<rparr> = Warning
       \<and> pluginStatusToStatus (makePlugin 3 2 1) = Warning
       \<and> pluginStatusToStatus (makePlugin 3 1 0) = Error"
  unfolding d_def r_def u_def
  by (simp add: pluginStatusToStatus_def Let_def statusCounter_def makePlugin_def)

theorem pluginStatusToStatus_cases_witness:
  "pluginStatusToStatus (makePlugin 0 0 0) = Warning
   \<and> pluginStatusToStatus (makePlugin 2 2 1) = Warning
   \<and> pluginStatusToStatus (makePlugin 3 3 0) = Success"
  using pluginStatusToStatus_cases [of "makePlugin 0 0 0"]
        pluginStatusToStatus_cases [of "makePlugin 2 2 1"]
  by (simp add: statusCounter_def makePlugin_def)


section \<open>Cluster-wide totals\<close>

text \<open>
  A node whose only capacity entry is \<open>gpu.intel.com/i915: "abc"\<close> is classified as a
  GPU node, so it is among the nodes the overview page sums over.
\<close>

lemma non_numeric_capacity_is_gpu_node:
  "isIntelGpuNode
     (JObj [(''metadata'', JObj [(''name'', JStr ''test-node'')]),
            (''status'', JObj [(''capacity'', JObj [(''gpu.intel.com/i915'', JStr ''abc'')])])])
     = Inr True"
  by (simp add: isIntelGpuNode_object hasGpuCapacityKey_def)

text \<open>
  C8: the claim that a capacity or allocatable value which is not an integer
  contributes 0 to \<open>totalCapacityGpus\<close> and \<open>totalAllocatableGpus\<close> fails on the code.
  For the list of a single node with the capacity \<open>gpu.intel.com/i915: "abc"\<close> the
  capacity total is \<open>NaN\<close>, and for a node with capacity \<open>"2"\<close> and allocatable \<open>"two"\<close>
  the allocatable total is \<open>NaN\<close>, while \<open>getNodeGpuCount\<close> counts 0 and 2 for the same
  nodes. One such node among others leaves the total \<open>NaN\<close>.
\<close>

theorem overviewGpuTotals_not_a_number:
  "overviewGpuTotals [nodeWithCapacity [(''gpu.intel.com/i915'', Some ''abc'')]] = (NaN, Num 0)
   \<and> getNodeGpuCount (nodeWithCapacity [(''gpu.intel.com/i915'', Some ''abc'')]) = 0
   \<and> overviewGpuTotals
        [nodeWithResources [(''gpu.intel.com/i915'', Some ''2'')]
           (Some [(''gpu.intel.com/i915'', Some ''two'')])] = (Num 2, NaN)
   \<and> getNodeGpuCount
        (nodeWithResources [(''gpu.intel.com/i915'', Some ''2'')]
           (Some [(''gpu.intel.com/i915'', Some ''two'')])) = 2
   \<and> overviewGpuTotals
        [nodeWithCapacity [(''gpu.intel.com/xe'', Some ''1'')],
         nodeWithCapacity [(''gpu.intel.com/i915'', Some [])],
         nodeWithCapacity [(''gpu.intel.com/i915'', Some ''4'')]] = (NaN, Num 0)"
  by (simp add: overviewGpuTotals_def addNode_def addNodeKey_def toNumber_def
      quantityOrZero_def getNodeGpuCount_def countEntry_def node_eval js_eval k8s_consts)

section \<open>Deduplication of plugin pods\<close>

lemma dedupeByUid_member:
  "p \<in> set (dedupeByUid seen ps) \<Longrightarrow>
   \<exists>u. podUid p = Some u \<and> u \<noteq> [] \<and> u \<notin> seen \<and> p \<in> set ps"
  by (induction ps arbitrary: seen)
    (auto simp: podUid_def split: option.splits if_splits)

lemma dedupeByUid_distinct: "distinct (map podUid (dedupeByUid seen ps))"
  by (induction ps arbitrary: seen)
    (auto simp: podUid_def split: option.splits if_splits dest!: dedupeByUid_member)

lemma dedupeByUid_subseq: "subseq (dedupeByUid seen ps) ps"
  by (induction ps arbitrary: seen) (auto split: option.splits)

lemma dedupeByUid_first:
  "p \<in> set (dedupeByUid seen ps) \<Longrightarrow> podUid p = Some u \<Longrightarrow> firstWithUid u ps = Some p"
proof (induction ps arbitrary: seen)
  case Nil
  then show ?case by simp
next
  case (Cons a ps)
  show ?case
  proof (cases "podUid a = Some u")
    case True
    from dedupeByUid_member [OF Cons.prems(1)] Cons.prems(2)
    have u: "u \<noteq> []" "u \<notin> seen"
      by auto
    with True Cons.prems(1) have "p = a \<or> p \<in> set (dedupeByUid (insert u seen) ps)"
      by (auto simp: podUid_def)
    moreover have "p \<notin> set (dedupeByUid (insert u seen) ps)"
      using Cons.prems(2) by (auto dest: dedupeByUid_member)
    ultimately show ?thesis using True by (simp add: firstWithUid_def)
  next
    case False
    with Cons.prems have "\<exists>s. p \<in> set (dedupeByUid s ps)"
      by (auto simp: podUid_def split: option.splits if_splits)
    then obtain s where "p \<in> set (dedupeByUid s ps)" ..
    from Cons.IH [OF this Cons.prems(2)] False show ?thesis
      by (simp add: firstWithUid_def)
  qed
qed

lemma dedupeByUid_complete:
  "q \<in> set ps \<Longrightarrow> podUid q = Some u \<Longrightarrow> u \<noteq> [] \<Longrightarrow> u \<notin> seen \<Longrightarrow>
   \<exists>p \<in> set (dedupeByUid seen ps). podUid p = Some u"
proof (induction ps arbitrary: seen)
  case Nil
  then show ?case by simp
next
  case (Cons a ps)
  show ?case
  proof (cases "podUid a = Some u")
    case True
    with Cons.prems show ?thesis by (auto simp: podUid_def)
  next
    case False
    with Cons.prems have q: "q \<in> set ps" by auto
    show ?thesis
    proof (cases "uid (pod_metadata a)")
      case None
      with Cons.IH [OF q Cons.prems(2,3,4)] show ?thesis by simp
    next
      case (Some x)
      with False have "x \<noteq> u" by (simp add: podUid_def)
      with Cons.prems(4) have "u \<notin> insert x seen" by simp
      from Cons.IH [OF q Cons.prems(2,3) this] Cons.IH [OF q Cons.prems(2,3,4)] Some
      show ?thesis by auto
    qed
  qed
qed

lemmas pod_eval =
  uniquePluginPods_def foundPluginPods_def pushPluginPods_def filterIntelGpuPluginPods_def
  isIntelGpuPluginPod_def podA_def podA'_def podB_def podNoUid_def
  podEmptyUid_def mkPod_def podUid_def hasUid_def firstWithUid_def

text \<open>
  C9: for every sequence of query answers, with \<open>found\<close> the plugin pods of the
  answers in concatenation order: the merged list holds no UID twice, holds an entry for
  every UID that occurs in \<open>found\<close>, each of its entries is the first pod of \<open>found\<close>
  with its UID, and it is a subsequence of \<open>found\<close> (so the survivors keep their
  relative order). A UID is a present, non-empty \<open>metadata.uid\<close>. Three lists in
  which two different entries share the UID \<open>abc\<close> merge to a list with exactly one
  entry whose UID is \<open>abc\<close>, the first one.
\<close>

theorem uniquePluginPods_first_occurrence:
  fixes responses :: "IntelGpuPod list option list"
  defines "found \<equiv> foundPluginPods responses"
  defines "merged \<equiv> uniquePluginPods found"
  shows "distinct (map podUid merged)
       \<and> (\<forall>q \<in> set found. hasUid q \<longrightarrow> (\<exists>p \<in> set merged. podUid p = podUid q))
       \<and> (\<forall>p \<in> set merged. \<exists>u. podUid p = Some u \<and> firstWithUid u found = Some p)
       \<and> subseq merged found
       \<and> uniquePluginPods (foundPluginPods [Some [podA, podB], Some [podA'], Some [podB, podA]]) = [podA, podB]
       \<and> filter (\<lambda>p. podUid p = Some ''abc'')
            (uniquePluginPods (foundPluginPods [Some [podA, podB], Some [podA'], Some [podB, podA]])) = [podA]"
proof -
  have "distinct (map podUid merged)"
    unfolding merged_def uniquePluginPods_def by (rule dedupeByUid_distinct)
  moreover have "\<forall>q \<in> set found. hasUid q \<longrightarrow> (\<exists>p \<in> set merged. podUid p = podUid q)"
    unfolding merged_def uniquePluginPods_def hasUid_def
    by (auto split: option.splits dest: dedupeByUid_complete [where seen = "{}"])
  moreover have "\<forall>p \<in> set merged. \<exists>u. podUid p = Some u \<and> firstWithUid u found = Some p"
    unfolding merged_def uniquePluginPods_def
    by (meson dedupeByUid_member dedupeByUid_first)
  moreover have "subseq merged found"
    unfolding merged_def uniquePluginPods_def by (rule dedupeByUid_subseq)
  moreover have "uniquePluginPods (foundPluginPods [Some [podA, podB], Some [podA'], Some [podB, podA]])
      = [podA, podB]"
    by (simp add: pod_eval)
  moreover have "filter (\<lambda>p. podUid p = Some ''abc'')
      (uniquePluginPods (foundPluginPods [Some [podA, podB], Some [podA'], Some [podB, podA]])) = [podA]"
    by (simp add: pod_eval)
  ultimately show ?thesis by blast
qed

theorem uniquePluginPods_first_occurrence_witness:
  "hasUid podA' \<and> podA' \<in> set (foundPluginPods [Some [podB], None, Some [podA, podB, podA']])
   \<and> (\<exists>p \<in> set (uniquePluginPods (foundPluginPods [Some [podB], None, Some [podA, podB, podA']])).
        podUid p = podUid podA')
   \<and> distinct (map podUid (uniquePluginPods (foundPluginPods [Some [podB], None, Some [podA, podB, podA']])))
   \<and> subseq (uniquePluginPods (foundPluginPods [Some [podB], None, Some [podA, podB, podA']]))
        (foundPluginPods [Some [podB], None, Some [podA, podB, podA']])"
proof -
  have h: "hasUid podA'" "podA' \<in> set (foundPluginPods [Some [podB], None, Some [podA, podB, podA']])"
    by (simp_all add: pod_eval)
  with uniquePluginPods_first_occurrence [of "[Some [podB], None, Some [podA, podB, podA']]"]
  show ?thesis by blast
qed

text \<open>
  C10: every pod of the deduplicated list has a present, non-empty \<open>metadata.uid\<close>; a
  pod without one is never in the output, however often it occurs in the input. A list
  that holds one pod without UID and one with an empty UID deduplicates to the empty
  list.
\<close>

theorem uniquePluginPods_only_with_uid:
  "(\<forall>p \<in> set (uniquePluginPods found). hasUid p)
   \<and> (\<not> hasUid q \<longrightarrow> q \<notin> set (uniquePluginPods found))
   \<and> uniquePluginPods [podNoUid, podEmptyUid] = []
   \<and> uniquePluginPods [podNoUid, podB, podEmptyUid] = [podB]"
proof -
  have all: "\<forall>p \<in> set (uniquePluginPods found). hasUid p"
    unfolding uniquePluginPods_def hasUid_def
    by (auto dest: dedupeByUid_member)
  then have "\<not> hasUid q \<longrightarrow> q \<notin> set (uniquePluginPods found)" by blast
  moreover have "uniquePluginPods [podNoUid, podEmptyUid] = []"
    by (simp add: pod_eval)
  moreover have "uniquePluginPods [podNoUid, podB, podEmptyUid] = [podB]"
    by (simp add: pod_eval)
  ultimately show ?thesis using all by blast
qed

theorem uniquePluginPods_only_with_uid_witness:
  "\<not> hasUid podNoUid \<and> podNoUid \<notin> set (uniquePluginPods [podA, podNoUid, podB])
   \<and> podB \<in> set (uniquePluginPods [podA, podNoUid, podB]) \<and> hasUid podB"
proof -
  have h: "\<not> hasUid podNoUid" "podB \<in> set (uniquePluginPods [podA, podNoUid, podB])"
    by (simp_all add: pod_eval)
  with uniquePluginPods_only_with_uid [of "[podA, podNoUid, podB]" podNoUid]
  show ?thesis by blast
qed

section \<open>The parser, line by line\<close>

lemma indexOf_takeWhile:
  "indexOf c s = (if c \<in> set s then Some (length (takeWhile (\<lambda>x. x \<noteq> c) s)) else None)"
  by (induction s) auto

lemma split_at_indexOf:
  "(case indexOf CHR '' '' rest of
      Some i \<Rightarrow> (slice rest 0 i, sliceFrom rest (i + 1))
    | None \<Rightarrow> (rest, [])) = splitAtSpace rest"
proof (cases "CHR '' '' \<in> set rest")
  case True
  have "take (length (takeWhile (\<lambda>x. x \<noteq> CHR '' '') rest)) rest = takeWhile (\<lambda>x. x \<noteq> CHR '' '') rest"
    by (metis takeWhile_eq_take)
  moreover have "drop (Suc (length (takeWhile (\<lambda>x. x \<noteq> CHR '' '') rest))) rest = tl (dropWhile (\<lambda>x. x \<noteq> CHR '' '') rest)"
    by (simp add: dropWhile_eq_drop drop_Suc tl_drop)
  ultimately show ?thesis using True
    by (simp add: indexOf_takeWhile splitAtSpace_def slice_def sliceFrom_def)
next
  case False
  then have "\<forall>x \<in> set rest. x \<noteq> CHR '' ''" by auto
  then have "takeWhile (\<lambda>c. c \<noteq> CHR '' '') rest = rest"
    and "dropWhile (\<lambda>c. c \<noteq> CHR '' '') rest = []"
    by simp_all
  then have "splitAtSpace rest = (rest, [])"
    unfolding splitAtSpace_def by (simp del: takeWhile_eq_all_conv dropWhile_eq_Nil_conv)
  with False show ?thesis
    by (simp add: indexOf_takeWhile)
qed

lemma startsWith_hash: "startsWith l ''# HELP '' \<Longrightarrow> startsWith l ''#''"
  "startsWith l ''# TYPE '' \<Longrightarrow> startsWith l ''#''"
  "startsWith l ''# HELP '' \<Longrightarrow> l \<noteq> []"
  "startsWith l ''# TYPE '' \<Longrightarrow> l \<noteq> []"
  "startsWith l ''# HELP '' \<Longrightarrow> \<not> startsWith l ''# TYPE ''"
  by (auto simp: startsWith_iff)

lemma parseLine_cases:
  "parseLine st l =
     (case helpLine l of
        Some (n, h) \<Rightarrow> st\<lparr>currentName := n, currentHelp := h\<rparr>
      | None \<Rightarrow>
          (case typeLine l of
             Some (n, t) \<Rightarrow> st\<lparr>currentType := t\<rparr>
           | None \<Rightarrow>
               (case sampleLine l of
                  Some (n, s) \<Rightarrow> st\<lparr>families := addSample st n s\<rparr>
                | None \<Rightarrow> st)))"
proof -
  define line where "line = trim l"
  consider (blank) "line = []"
    | (isHelp) "line \<noteq> []" "startsWith line ''# HELP ''"
    | (isType) "line \<noteq> []" "\<not> startsWith line ''# HELP ''" "startsWith line ''# TYPE ''"
    | (comment) "line \<noteq> []" "\<not> startsWith line ''# HELP ''" "\<not> startsWith line ''# TYPE ''" "startsWith line ''#''"
    | (data) "line \<noteq> []" "\<not> startsWith line ''# HELP ''" "\<not> startsWith line ''# TYPE ''" "\<not> startsWith line ''#''"
    by blast
  then show ?thesis
  proof cases
    case blank
    then show ?thesis
      by (simp add: parseLine_def helpLine_def typeLine_def sampleLine_def dataLine_def line_def [symmetric] startsWith_def)
  next
    case isHelp
    obtain n h where nh: "splitAtSpace (drop 7 line) = (n, h)" by (cases "splitAtSpace (drop 7 line)")
    from split_at_indexOf [of "drop 7 line"] nh isHelp show ?thesis
      by (auto simp add: parseLine_def helpLine_def line_def [symmetric] sliceFrom_def Let_def split: option.splits)
  next
    case isType
    obtain n h where nh: "splitAtSpace (drop 7 line) = (n, h)" by (cases "splitAtSpace (drop 7 line)")
    from split_at_indexOf [of "drop 7 line"] nh isType show ?thesis
      by (auto simp add: parseLine_def helpLine_def typeLine_def line_def [symmetric] sliceFrom_def Let_def split: option.splits)
  next
    case comment
    then show ?thesis
      by (simp add: parseLine_def helpLine_def typeLine_def sampleLine_def dataLine_def line_def [symmetric])
  next
    case data
    then show ?thesis
      by (simp add: parseLine_def helpLine_def typeLine_def sampleLine_def dataLine_def line_def [symmetric] split: option.splits float.splits)
  qed
qed


lemma help_not_sample: "helpLine l = Some x \<Longrightarrow> sampleLine l = None"
  by (auto simp: helpLine_def sampleLine_def dataLine_def split: if_splits dest: startsWith_hash)

lemma type_not_sample: "typeLine l = Some x \<Longrightarrow> sampleLine l = None"
  by (auto simp: typeLine_def sampleLine_def dataLine_def split: if_splits dest: startsWith_hash)

lemma lastHelp_snoc:
  "lastHelp (ls @ [x]) = (case helpLine x of Some h \<Rightarrow> Some h | None \<Rightarrow> lastHelp ls)"
  by (simp add: lastHelp_def split: option.splits)

lemma lastType_snoc:
  "lastType (ls @ [x]) = (case typeLine x of Some t \<Rightarrow> Some t | None \<Rightarrow> lastType ls)"
  by (simp add: lastType_def split: option.splits)

lemma map_filter_append: "List.map_filter f (xs @ ys) = List.map_filter f xs @ List.map_filter f ys"
  by (simp add: List.map_filter_def)

lemma samplesOf_snoc:
  "samplesOf n (ls @ [x]) =
     samplesOf n ls @ (case sampleLine x of
                         Some (m, s) \<Rightarrow> if m = n then [s] else []
                       | None \<Rightarrow> [])"
  by (simp add: samplesOf_def map_filter_append split: option.splits)

lemma samplesOf_empty_iff: "samplesOf n ls = [] \<longleftrightarrow> (\<forall>l \<in> set ls. sampleName l \<noteq> Some n)"
  by (induction ls) (auto simp: samplesOf_def sampleName_def split: option.splits)

lemma linesBefore_snoc:
  "linesBefore n (ls @ [x]) =
     (if samplesOf n ls \<noteq> [] then linesBefore n ls
      else if sampleName x = Some n then ls else ls @ [x])"
  by (auto simp: linesBefore_def samplesOf_empty_iff)

lemma linesBefore_all: "samplesOf n ls = [] \<Longrightarrow> linesBefore n ls = ls"
  by (simp add: linesBefore_def samplesOf_empty_iff)

lemma parsed_init: "parsed [] initialState"
  by (simp add: parsed_def initialState_def nameAfter_def helpAfter_def typeAfter_def
      lastHelp_def lastType_def familyOf_def samplesOf_def)

lemma familyOf_snoc_other:
  assumes "sampleName x \<noteq> Some n"
  shows "familyOf n (ls @ [x]) = familyOf n ls"
proof -
  from assms have s: "samplesOf n (ls @ [x]) = samplesOf n ls"
    by (auto simp: samplesOf_snoc sampleName_def split: option.splits)
  show ?thesis
  proof (cases "samplesOf n ls = []")
    case True
    with s show ?thesis by (simp add: familyOf_def)
  next
    case False
    with s show ?thesis by (simp add: familyOf_def linesBefore_snoc)
  qed
qed

lemma parsed_step:
  assumes "parsed ls st"
  shows "parsed (ls @ [x]) (parseLine st x)"
proof (cases "helpLine x")
  case (Some nh)
  obtain n h where nh: "nh = (n, h)" by (cases nh)
  from Some have ns: "sampleName x = None" by (simp add: sampleName_def help_not_sample)
  from Some have nt: "typeLine x = None"
    by (auto simp: helpLine_def typeLine_def split: if_splits dest: startsWith_hash)
  from assms Some nh ns nt show ?thesis
    by (simp add: parsed_def parseLine_cases nameAfter_def helpAfter_def typeAfter_def
        lastHelp_snoc lastType_snoc familyOf_snoc_other)
next
  case None
  note noHelp = None
  show ?thesis
  proof (cases "typeLine x")
    case (Some nt)
    obtain n t where nt: "nt = (n, t)" by (cases nt)
    from Some have ns: "sampleName x = None" by (simp add: sampleName_def type_not_sample)
    from assms Some noHelp nt ns show ?thesis
      by (simp add: parsed_def parseLine_cases nameAfter_def helpAfter_def typeAfter_def
          lastHelp_snoc lastType_snoc familyOf_snoc_other)
  next
    case None
    note noType = None
    show ?thesis
    proof (cases "sampleLine x")
      case None
      then have ns: "sampleName x = None" by (simp add: sampleName_def)
      from assms None noHelp noType ns show ?thesis
        by (simp add: parsed_def parseLine_cases nameAfter_def helpAfter_def typeAfter_def
            lastHelp_snoc lastType_snoc familyOf_snoc_other)
    next
      case (Some ms)
      obtain m s where ms: "ms = (m, s)" by (cases ms)
      have st': "parseLine st x = st\<lparr>families := addSample st m s\<rparr>"
        by (simp add: parseLine_cases noHelp noType Some ms)
      have cur: "nameAfter (ls @ [x]) = nameAfter ls" "helpAfter (ls @ [x]) = helpAfter ls"
        "typeAfter (ls @ [x]) = typeAfter ls"
        by (simp_all add: nameAfter_def helpAfter_def typeAfter_def lastHelp_snoc lastType_snoc
            noHelp noType)
      have fam: "map_of (addSample st m s) n = familyOf n (ls @ [x])" for n
      proof (cases "n = m")
        case False
        then have "sampleName x \<noteq> Some n" by (simp add: sampleName_def Some ms)
        from familyOf_snoc_other [OF this] False assms show ?thesis
          by (simp add: addSample_def Let_def update_conv' parsed_def)
      next
        case True
        have sn: "sampleName x = Some m" by (simp add: sampleName_def Some ms)
        have so: "samplesOf m (ls @ [x]) = samplesOf m ls @ [s]"
          by (simp add: samplesOf_snoc Some ms)
        show ?thesis
        proof (cases "samplesOf m ls = []")
          case True
          with assms have none: "map_of (families st) m = None"
            by (simp add: parsed_def familyOf_def)
          have lb: "linesBefore m (ls @ [x]) = ls"
            using True sn by (simp add: linesBefore_snoc)
          have lhs: "map_of (addSample st m s) m =
              Some \<lparr>family_name = m,
                    family_help = (if m = currentName st then currentHelp st else []),
                    family_type = (if m = currentName st then currentType st else []),
                    family_samples = [s]\<rparr>"
            by (simp add: addSample_def Let_def update_conv' none)
          have rhs: "familyOf m (ls @ [x]) =
              Some \<lparr>family_name = m,
                    family_help = (if m = nameAfter ls then helpAfter ls else []),
                    family_type = (if m = nameAfter ls then typeAfter ls else []),
                    family_samples = [s]\<rparr>"
            unfolding familyOf_def lb so True by simp
          from assms have "currentName st = nameAfter ls" "currentHelp st = helpAfter ls"
            "currentType st = typeAfter ls"
            by (simp_all add: parsed_def)
          with lhs rhs \<open>n = m\<close> show ?thesis by simp
        next
          case False
          with assms have "map_of (families st) m = familyOf m ls" "familyOf m ls \<noteq> None"
            by (simp_all add: parsed_def familyOf_def)
          moreover have "linesBefore m (ls @ [x]) = linesBefore m ls"
            using False by (simp add: linesBefore_snoc)
          ultimately show ?thesis using so False \<open>n = m\<close>
            by (auto simp add: addSample_def Let_def update_conv' familyOf_def)
        qed
      qed
      from assms cur fam show ?thesis
        by (simp add: parsed_def st')
    qed
  qed
qed

lemma parsed_parseLines: "parsed ls (parseLines ls)"
proof (induction ls rule: rev_induct)
  case Nil
  show ?case by (simp add: parseLines_def parsed_init)
next
  case (snoc x xs)
  from parsed_step [OF snoc.IH] show ?case by (simp add: parseLines_def)
qed

lemma parsePrometheusText_family:
  "map_of (parsePrometheusText text) n = familyOf n (split CHR 0x0A text)"
  using parsed_parseLines [of "split CHR 0x0A text"]
  by (simp add: parsePrometheusText_def parsed_def)

section \<open>Evaluating the parser and the extractor\<close>

lemmas metrics_eval =
  parsePrometheusText_def parseLines_def parseLine_def initialState_def splitDataLine_def
  firstToken_def addSample_def parseFloat_def decimalLiteral_def exponentPart_def toFloat_def
  scale10_def parseLabels_def matchLabelPair_def setLabel_def isWordChar_def
  extractGpuNodeMetrics_def samplesFor_def utilizationOf_def totalMatches_def cardOf_def
  rawCardOf_def engineOf_def cardValue_def isFinite_def Let_def

lemmas line_eval =
  lastHelp_def lastType_def linesBefore_def sampleName_def sampleLine_def dataLine_def
  valueToken_def typeLine_def helpLine_def splitAtSpace_def nameAfter_def helpAfter_def
  typeAfter_def

lemma parse_utilizationText:
  "parsePrometheusText utilizationText =
     [(''gpu_i915_engine_active_ticks'',
       \<lparr>family_name = ''gpu_i915_engine_active_ticks'', family_help = [], family_type = [],
        family_samples =
          [\<lparr>sample_labels = [''card'' \<mapsto> ''card0'', ''engine'' \<mapsto> ''render/0''],
            sample_value = 50\<rparr>]\<rparr>),
      (''gpu_i915_engine_total_ticks'',
       \<lparr>family_name = ''gpu_i915_engine_total_ticks'', family_help = [], family_type = [],
        family_samples =
          [\<lparr>sample_labels = [''card'' \<mapsto> ''card0'', ''engine'' \<mapsto> ''render/0''],
            sample_value = 100\<rparr>]\<rparr>)]"
  by (simp add: utilizationText_def metrics_eval js_eval)

lemma parse_unlabelledText:
  "parsePrometheusText unlabelledText =
     [(''gpu_i915_engine_active_ticks'',
       \<lparr>family_name = ''gpu_i915_engine_active_ticks'', family_help = [], family_type = [],
        family_samples =
          [\<lparr>sample_labels = [''engine'' \<mapsto> ''render/0''], sample_value = 50\<rparr>]\<rparr>),
      (''gpu_i915_engine_total_ticks'',
       \<lparr>family_name = ''gpu_i915_engine_total_ticks'', family_help = [], family_type = [],
        family_samples =
          [\<lparr>sample_labels = [''engine'' \<mapsto> ''render/0''], sample_value = 100\<rparr>]\<rparr>)]"
  by (simp add: unlabelledText_def metrics_eval js_eval)


lemma parse_mismatchedTypeText:
  "parsePrometheusText mismatchedTypeText =
     [(''foo'', \<lparr>family_name = ''foo'', family_help = ''h'', family_type = ''counter'',
                family_samples = [\<lparr>sample_labels = Map.empty, sample_value = 1\<rparr>]\<rparr>)]"
  by (simp add: mismatchedTypeText_def metrics_eval js_eval)

lemma lines_mismatchedTypeText:
  "linesBefore ''foo'' (split CHR 0x0A mismatchedTypeText) = [''# HELP foo h'', ''# TYPE bar counter'']"
  by (simp add: mismatchedTypeText_def line_eval metrics_eval js_eval)

lemma parse_malformedValuesText:
  "parsePrometheusText malformedValuesText =
     [(''up'', \<lparr>family_name = ''up'', family_help = [], family_type = [],
               family_samples = [\<lparr>sample_labels = Map.empty, sample_value = 1\<rparr>]\<rparr>)]"
  by (simp add: malformedValuesText_def metrics_eval js_eval)

section \<open>Engine utilization\<close>




lemma mathRound_of_int: "mathRound (of_int k) = k"
  by (simp add: mathRound_def floor_eq_iff)

lemma mathRound_numeral [simp]:
  "mathRound (numeral v) = numeral v" "mathRound (- numeral v) = - numeral v"
  "mathRound 0 = 0" "mathRound 1 = 1"
  using mathRound_of_int [of "numeral v"] mathRound_of_int [of "- numeral v"]
    mathRound_of_int [of 0] mathRound_of_int [of 1]
  by simp_all





text \<open>
  Outside the two cases of the amended statement the code has no lower bound: \<open>-50\<close>
  active ticks of 100 total ticks are reported as \<open>-50\<close> percent.
\<close>

lemma utilization_of_negative_active:
  "eu_pct (utilizationOf
      [\<lparr>sample_labels = [''card'' \<mapsto> ''card0'', ''engine'' \<mapsto> ''render/0''],
        sample_value = 100\<rparr>]
      \<lparr>sample_labels = [''card'' \<mapsto> ''card0'', ''engine'' \<mapsto> ''render/0''],
       sample_value = - 50\<rparr>) = - 50"
  by (simp add: utilizationOf_def totalMatches_def cardOf_def rawCardOf_def engineOf_def Let_def)

section \<open>Matching total ticks to active ticks\<close>

text \<open>A total sample without \<open>card\<close> and \<open>gpu\<close> labels matches no card at all.\<close>

lemma total_without_card_never_matches:
  "rawCardOf (sample_labels s) = None \<Longrightarrow> \<not> totalMatches c e s"
  by (simp add: totalMatches_def)

text \<open>
  C2: the claim that a total-ticks sample without \<open>card\<close> and \<open>gpu\<close> labels matches an
  active sample without them fails on the code. For the two unlabelled samples with
  engine \<open>render/0\<close>, 50 active ticks and 100 total ticks, the active sample resolves to
  card \<open>gpu0\<close>, the total sample does not match it, and the reported utilization is 0;
  with a \<open>card\<close> label on both samples the same readings give 50.
\<close>

theorem unlabelled_total_does_not_match:
  "engineUtilization
     (extractGpuNodeMetrics (parsePrometheusText unlabelledText) ''node'' ''pod'')
     = [\<lparr>eu_card = ''gpu0'', eu_engine = ''render/0'', eu_pct = 0\<rparr>]
   \<and> cardOf [''engine'' \<mapsto> ''render/0''] = ''gpu0''
   \<and> rawCardOf [''engine'' \<mapsto> ''render/0''] = None
   \<and> totalMatches (cardOf [''engine'' \<mapsto> ''render/0'']) (engineOf [''engine'' \<mapsto> ''render/0''])
        \<lparr>sample_labels = [''engine'' \<mapsto> ''render/0''], sample_value = 100\<rparr> = False
   \<and> engineUtilization
        (extractGpuNodeMetrics (parsePrometheusText utilizationText) ''node'' ''pod'')
      = [\<lparr>eu_card = ''card0'', eu_engine = ''render/0'', eu_pct = 50\<rparr>]"
  by (simp add: parse_unlabelledText parse_utilizationText extractGpuNodeMetrics_def
      samplesFor_def utilizationOf_def totalMatches_def cardOf_def rawCardOf_def engineOf_def
      Let_def)

section \<open>Help and type of a family\<close>

text \<open>
  C3, as stated, fails on the code: in \<open>mismatchedTypeText\<close> the most recent \<open># TYPE\<close>
  line before the first data line of \<open>foo\<close> names \<open>bar\<close>, and the family \<open>foo\<close> still
  carries its type string \<open>counter\<close>.
\<close>

theorem type_of_other_metric:
  "map_option family_type (map_of (parsePrometheusText mismatchedTypeText) ''foo'')
     = Some ''counter''
   \<and> lastType (linesBefore ''foo'' (split CHR 0x0A mismatchedTypeText))
     = Some (''bar'', ''counter'')
   \<and> lastHelp (linesBefore ''foo'' (split CHR 0x0A mismatchedTypeText)) = Some (''foo'', ''h'')
   \<and> map_option fst (lastType (linesBefore ''foo'' (split CHR 0x0A mismatchedTypeText)))
     \<noteq> Some ''foo''"
  unfolding parse_mismatchedTypeText lines_mismatchedTypeText
  by (simp add: lastType_def lastHelp_def typeLine_def helpLine_def splitAtSpace_def js_eval)

text \<open>
  C3, amended: for every text and every family of the parsed map, let the preceding
  lines be those before the family's first data line. The help is non-empty only if the
  most recent preceding \<open># HELP\<close> line named the family, and is then that line's text.
  The type is non-empty only if the current name (the name of the most recent preceding
  \<open># HELP\<close> line, or the empty string without one) is the family's name, and is then
  the type string of the most recent preceding \<open># TYPE\<close> line, whichever metric that
  line names. A family whose name is not the current name at its first data line
  carries empty help and empty type.
\<close>

theorem family_help_and_type:
  fixes input n :: string
  defines "before \<equiv> linesBefore n (split CHR 0x0A input)"
  assumes "map_of (parsePrometheusText input) n = Some fam"
  shows "(family_help fam \<noteq> [] \<longrightarrow> lastHelp before = Some (n, family_help fam))
   \<and> (family_type fam \<noteq> [] \<longrightarrow>
        n = nameAfter before \<and> (\<exists>m. lastType before = Some (m, family_type fam)))
   \<and> (n \<noteq> nameAfter before \<longrightarrow> family_help fam = [] \<and> family_type fam = [])
   \<and> family_help fam = (if n = nameAfter before then helpAfter before else [])
   \<and> family_type fam = (if n = nameAfter before then typeAfter before else [])
   \<and> sampleName (split CHR 0x0A input ! length before) = Some n
   \<and> length before < length (split CHR 0x0A input)"
proof -
  define ls where "ls = split CHR 0x0A input"
  from assms have fam: "familyOf n ls = Some fam"
    by (simp add: parsePrometheusText_family ls_def)
  then have nonempty: "samplesOf n ls \<noteq> []"
    by (auto simp: familyOf_def split: if_splits)
  have before: "before = linesBefore n ls"
    by (simp add: before_def ls_def)
  from fam nonempty have h: "family_help fam = (if n = nameAfter before then helpAfter before else [])"
    and t: "family_type fam = (if n = nameAfter before then typeAfter before else [])"
    by (auto simp: familyOf_def before)
  from nonempty obtain l where "l \<in> set ls" "sampleName l = Some n"
    by (auto simp: samplesOf_empty_iff)
  then have "dropWhile (\<lambda>l. sampleName l \<noteq> Some n) ls \<noteq> []"
    by auto
  then have "length (takeWhile (\<lambda>l. sampleName l \<noteq> Some n) ls)
      < length (takeWhile (\<lambda>l. sampleName l \<noteq> Some n) ls
                @ dropWhile (\<lambda>l. sampleName l \<noteq> Some n) ls)"
    by (simp del: takeWhile_dropWhile_id)
  then have len: "length before < length ls"
    by (simp add: before linesBefore_def)
  then have first: "sampleName (ls ! length before) = Some n"
    unfolding before linesBefore_def
    using nth_length_takeWhile [of "\<lambda>l. sampleName l \<noteq> Some n" ls] by simp
  have c_help: "family_help fam \<noteq> [] \<longrightarrow> lastHelp before = Some (n, family_help fam)"
    using h by (auto simp: nameAfter_def helpAfter_def split: option.splits if_splits)
  have c_type: "family_type fam \<noteq> [] \<longrightarrow>
        n = nameAfter before \<and> (\<exists>m. lastType before = Some (m, family_type fam))"
    using t by (auto simp: typeAfter_def split: option.splits if_splits)
  have other: "n \<noteq> nameAfter before \<longrightarrow> family_help fam = [] \<and> family_type fam = []"
    using h t by simp
  from c_help c_type other h t first len show ?thesis
    unfolding ls_def by blast
qed

theorem family_help_and_type_witness:
  "map_of (parsePrometheusText mismatchedTypeText) ''foo''
     = Some \<lparr>family_name = ''foo'', family_help = ''h'', family_type = ''counter'',
             family_samples = [\<lparr>sample_labels = Map.empty, sample_value = 1\<rparr>]\<rparr>
   \<and> lastHelp (linesBefore ''foo'' (split CHR 0x0A mismatchedTypeText)) = Some (''foo'', ''h'')
   \<and> ''foo'' = nameAfter (linesBefore ''foo'' (split CHR 0x0A mismatchedTypeText))"
proof -
  have m: "map_of (parsePrometheusText mismatchedTypeText) ''foo''
     = Some \<lparr>family_name = ''foo'', family_help = ''h'', family_type = ''counter'',
             family_samples = [\<lparr>sample_labels = Map.empty, sample_value = 1\<rparr>]\<rparr>"
    by (simp add: parse_mismatchedTypeText)
  from family_help_and_type [OF m] m show ?thesis by simp
qed

section \<open>Malformed lines\<close>

lemma parseLines_skip:
  assumes "\<And>st l. P l \<Longrightarrow> parseLine st l = st"
  shows "foldl parseLine st (filter (\<lambda>l. \<not> P l) ls) = foldl parseLine st ls"
  by (induction ls arbitrary: st) (simp_all add: assms)

lemma non_finite_skipped:
  assumes "valueToken l = Some tok" "\<not> isFinite (parseFloat tok)"
  shows "parseLine st l = st"
proof -
  from assms have "sampleLine l = None"
    by (auto simp: valueToken_def sampleLine_def isFinite_def split: option.splits float.splits)
  moreover from assms have "dataLine l \<noteq> None"
    by (auto simp: valueToken_def split: option.splits)
  then have "helpLine l = None" "typeLine l = None"
    by (auto simp: dataLine_def helpLine_def typeLine_def split: if_splits dest: startsWith_hash)
  ultimately show ?thesis by (simp add: parseLine_cases)
qed

text \<open>
  C4: the parser is a total function of its input (the only loop without a fixed bound,
  the label scan, terminates): the empty text and the text \<open>not a valid line\<close> parse to
  the empty map; a data line whose value token is not a finite number leaves the parser
  state as it is, so dropping all such lines from the input changes nothing; and every
  sample of the result comes from a data line whose value token is finite.
\<close>

theorem parsePrometheusText_skips_malformed:
  "parsePrometheusText [] = []
   \<and> parsePrometheusText ''not a valid line'' = []
   \<and> (valueToken l = Some tok \<and> \<not> isFinite (parseFloat tok) \<longrightarrow> parseLine st l = st)
   \<and> parseLines
        (filter (\<lambda>l. \<not> (case valueToken l of
                            None \<Rightarrow> False
                          | Some tok \<Rightarrow> \<not> isFinite (parseFloat tok))) ls)
      = parseLines ls
   \<and> samplesFor (parsePrometheusText text) n = samplesOf n (split CHR 0x0A text)"
proof -
  have empty: "parsePrometheusText [] = []"
    by (simp add: metrics_eval js_eval)
  have invalid: "parsePrometheusText ''not a valid line'' = []"
    by (simp add: metrics_eval js_eval)
  have skip: "valueToken l = Some tok \<and> \<not> isFinite (parseFloat tok) \<longrightarrow> parseLine st l = st"
    by (auto intro: non_finite_skipped)
  have drop: "parseLines
        (filter (\<lambda>l. \<not> (case valueToken l of
                            None \<Rightarrow> False
                          | Some tok \<Rightarrow> \<not> isFinite (parseFloat tok))) ls)
      = parseLines ls"
    unfolding parseLines_def
    by (rule parseLines_skip) (auto split: option.splits intro: non_finite_skipped)
  have samples: "samplesFor (parsePrometheusText text) n = samplesOf n (split CHR 0x0A text)"
    by (simp add: samplesFor_def parsePrometheusText_family familyOf_def)
  from empty invalid skip drop samples show ?thesis by blast
qed

theorem parsePrometheusText_skips_malformed_witness:
  "valueToken ''not a valid line'' = Some ''line''
   \<and> \<not> isFinite (parseFloat ''line'')
   \<and> parseLine initialState ''not a valid line'' = initialState
   \<and> \<not> isFinite (parseFloat ''1e309'')
   \<and> map (\<lambda>s. sample_value s) (samplesFor (parsePrometheusText malformedValuesText) ''up'') = [1]"
proof -
  have v: "valueToken ''not a valid line'' = Some ''line''"
    by (simp add: line_eval metrics_eval js_eval)
  have f: "\<not> isFinite (parseFloat ''line'')"
    by (simp add: metrics_eval js_eval)
  have g: "\<not> isFinite (parseFloat ''1e309'')"
    by (simp add: metrics_eval js_eval)
  have s: "map (\<lambda>s. sample_value s) (samplesFor (parsePrometheusText malformedValuesText) ''up'') = [1]"
    by (simp add: parse_malformedValuesText samplesFor_def)
  from parsePrometheusText_skips_malformed [of "''not a valid line''" "''line''" initialState]
    v f g s
  show ?thesis by simp
qed

end
